theory Spec2Isabelle
  imports Main
begin

section \<open>JavaScript values and built-ins used by cnabRows.js\<close>

text \<open>
  A JavaScript string is a sequence of code units. The model writes it as \<open>string\<close>
  (a \<open>char list\<close>), so it covers the code units below 256; CNAB remittance files are
  plain ASCII. Positions (\<open>from\<close>, \<open>to\<close>, the offsets of the table) are JavaScript
  numbers holding integers and are modelled as \<open>int\<close>.
\<close>

datatype js =
    Str string
  | Num int
  | Obj "(string \<times> js) list"
  | Arr "js list"

text \<open>
  \<open>s[i]\<close> on a string: the one-character string at index \<open>i\<close>, or \<open>undefined\<close>
  (here \<open>None\<close>) when \<open>i\<close> is out of range.
\<close>

definition index_str :: "string \<Rightarrow> int \<Rightarrow> string option" where
  "index_str s i =
     (if 0 \<le> i \<and> i < int (length s) then Some [s ! nat i] else None)"

text \<open>
  The relative index of \<open>Array.prototype.slice\<close> and \<open>String.prototype.slice\<close>:
  a negative position counts from the end, and the result is clamped to \<open>[0, len]\<close>.
\<close>

definition rel_index :: "nat \<Rightarrow> int \<Rightarrow> nat" where
  "rel_index len i =
     (if i < 0 then nat (max (int len + i) 0) else min (nat i) len)"

text \<open>\<open>xs.slice(start, fin)\<close>; an absent \<open>fin\<close> (\<open>None\<close>) stands for the length.\<close>

definition js_slice :: "'a list \<Rightarrow> int \<Rightarrow> int option \<Rightarrow> 'a list" where
  "js_slice xs start fin =
     (let len = length xs;
          k = rel_index len start;
          final = (case fin of None \<Rightarrow> len | Some e \<Rightarrow> rel_index len e)
      in take (final - k) (drop k xs))"

text \<open>
  \<open>s.substring(start, fin)\<close>: both positions are clamped to \<open>[0, len]\<close>, and when the
  first exceeds the second the two are swapped.
\<close>

definition clamp_index :: "nat \<Rightarrow> int \<Rightarrow> nat" where
  "clamp_index len i = nat (min (max i 0) (int len))"

definition substring :: "string \<Rightarrow> int \<Rightarrow> int option \<Rightarrow> string" where
  "substring s start fin =
     (let len = length s;
          int_start = clamp_index len start;
          int_end = (case fin of None \<Rightarrow> len | Some e \<Rightarrow> clamp_index len e);
          lo = min int_start int_end;
          hi = max int_start int_end
      in take (hi - lo) (drop lo s))"

text \<open>
  \<open>s.trim()\<close> removes white space and line terminators at both ends. Among the code
  units below 256 these are TAB, LF, VT, FF, CR, SPACE and NO-BREAK SPACE.
\<close>

definition is_white_space :: "char \<Rightarrow> bool" where
  "is_white_space c =
     (c = CHR 0x09 \<or> c = CHR 0x0A \<or> c = CHR 0x0B \<or> c = CHR 0x0C \<or> c = CHR 0x0D
      \<or> c = CHR 0x20 \<or> c = CHR 0xA0)"

definition trim :: "string \<Rightarrow> string" where
  "trim s = rev (dropWhile is_white_space (rev (dropWhile is_white_space s)))"

text \<open>
  \<open>s.toUpperCase()\<close> for code units below 256: the letters a to z and the Latin-1
  letters from 0xE0 to 0xFE (the division sign 0xF7 apart) become the code unit 32
  below, the sharp s (0xDF) becomes SS, and every other code unit is kept, with two
  exceptions: the upper case of the micro sign (0xB5) is U+039C and that of y with
  diaeresis (0xFF) is U+0178, code units that a \<open>string\<close> cannot hold. For a string
  with one of these two the result is \<open>None\<close>: a string with a code unit above 255.
\<close>

definition upper_char :: "char \<Rightarrow> string option" where
  "upper_char c =
     (let n = (of_char c :: nat)
      in if n = 181 \<or> n = 255 then None
         else if n = 223 then Some ''SS''
         else if (97 \<le> n \<and> n \<le> 122) \<or> (224 \<le> n \<and> n \<le> 254 \<and> n \<noteq> 247)
           then Some [char_of (n - 32)]
         else Some [c])"

fun toUpperCase :: "string \<Rightarrow> string option" where
  "toUpperCase [] = Some []"
| "toUpperCase (c # cs) =
     (case upper_char c of
        None \<Rightarrow> None
      | Some u \<Rightarrow> (case toUpperCase cs of None \<Rightarrow> None | Some us \<Rightarrow> Some (u @ us)))"

text \<open>\<open>s.includes(p)\<close>: \<open>p\<close> occurs in \<open>s\<close> as a contiguous run.\<close>

fun startsWith :: "string \<Rightarrow> string \<Rightarrow> bool" where
  "startsWith s [] = True"
| "startsWith [] (p # ps) = False"
| "startsWith (c # cs) (p # ps) = (c = p \<and> startsWith cs ps)"

fun includes_js :: "string \<Rightarrow> string \<Rightarrow> bool" where
  "includes_js [] p = (p = [])"
| "includes_js (c # cs) p = (startsWith (c # cs) p \<or> includes_js cs p)"

text \<open>\<open>s.split(sep)\<close> for a separator of one character.\<close>

fun split_js :: "string \<Rightarrow> char \<Rightarrow> string list" where
  "split_js [] sep = [[]]"
| "split_js (c # cs) sep =
     (if c = sep then [] # split_js cs sep
      else (c # hd (split_js cs sep)) # tl (split_js cs sep))"

text \<open>\<open>xs.join(sep)\<close>.\<close>

fun join_js :: "'a list list \<Rightarrow> 'a list \<Rightarrow> 'a list" where
  "join_js [] sep = []"
| "join_js [x] sep = x"
| "join_js (x # y # ys) sep = x @ sep @ join_js (y # ys) sep"

text \<open>\<open>String(n)\<close> for an integer \<open>n\<close>: its decimal numeral.\<close>

fun number_toString_nat :: "nat \<Rightarrow> string" where
  "number_toString_nat n =
     (if n < 10 then [char_of (48 + n)]
      else number_toString_nat (n div 10) @ [char_of (48 + n mod 10)])"

declare number_toString_nat.simps [simp del]

definition number_toString :: "int \<Rightarrow> string" where
  "number_toString i =
     (if i < 0 then CHR ''-'' # number_toString_nat (nat (- i))
      else number_toString_nat (nat i))"

section \<open>The offset table\<close>

record position =
  START :: int
  END :: int

record cnab_positions =
  SEGMENT_INDEX :: int
  COMPANY_NAME :: position
  ADDRESS :: position
  DISTRICT :: position
  ZIP :: position
  CITY :: position
  STATE :: position

definition CNAB_POSITIONS :: cnab_positions where
  "CNAB_POSITIONS =
     \<lparr> SEGMENT_INDEX = 13,
       COMPANY_NAME = \<lparr> START = 33, END = 73 \<rparr>,
       ADDRESS = \<lparr> START = 73, END = 113 \<rparr>,
       DISTRICT = \<lparr> START = 113, END = 128 \<rparr>,
       ZIP = \<lparr> START = 128, END = 136 \<rparr>,
       CITY = \<lparr> START = 136, END = 151 \<rparr>,
       STATE = \<lparr> START = 151, END = 154 \<rparr> \<rparr>"

section \<open>Field extraction\<close>

text \<open>
  \<open>parseCnabQSegmentLine\<close> builds an object literal; an object keeps its keys in
  insertion order, so it is an association list.
\<close>

definition parseCnabQSegmentLine :: "string \<Rightarrow> js" where
  "parseCnabQSegmentLine line =
     Obj [
       (''nome'', Obj [
          (''value'', Str (trim (js_slice line (START (COMPANY_NAME CNAB_POSITIONS))
                                   (Some (END (COMPANY_NAME CNAB_POSITIONS)))))),
          (''from'', Num (START (COMPANY_NAME CNAB_POSITIONS))),
          (''to'', Num (END (COMPANY_NAME CNAB_POSITIONS)))]),
       (''endereco'', Obj [
          (''value'', Str (trim (js_slice line (START (ADDRESS CNAB_POSITIONS))
                                   (Some (END (ADDRESS CNAB_POSITIONS)))))),
          (''from'', Num (START (ADDRESS CNAB_POSITIONS))),
          (''to'', Num (END (ADDRESS CNAB_POSITIONS)))]),
       (''bairro'', Obj [
          (''value'', Str (trim (js_slice line (START (DISTRICT CNAB_POSITIONS))
                                   (Some (END (DISTRICT CNAB_POSITIONS)))))),
          (''from'', Num (START (DISTRICT CNAB_POSITIONS))),
          (''to'', Num (END (DISTRICT CNAB_POSITIONS)))]),
       (''cep'', Obj [
          (''value'', Str (js_slice line (START (ZIP CNAB_POSITIONS))
                             (Some (END (ZIP CNAB_POSITIONS))))),
          (''from'', Num (START (ZIP CNAB_POSITIONS))),
          (''to'', Num (END (ZIP CNAB_POSITIONS)))]),
       (''cidade'', Obj [
          (''value'', Str (trim (js_slice line (START (CITY CNAB_POSITIONS))
                                   (Some (END (CITY CNAB_POSITIONS)))))),
          (''from'', Num (START (CITY CNAB_POSITIONS))),
          (''to'', Num (END (CITY CNAB_POSITIONS)))]),
       (''estado'', Obj [
          (''value'', Str (js_slice line (START (STATE CNAB_POSITIONS))
                             (Some (END (STATE CNAB_POSITIONS))))),
          (''from'', Num (START (STATE CNAB_POSITIONS))),
          (''to'', Num (END (STATE CNAB_POSITIONS)))])]"

section \<open>Console output and the file system\<close>

text \<open>
  The program's effects are the lines it prints and the file it writes. Both are carried
  in an explicit state. A printed message is a list of spans: plain text, or text given
  to one of the \<open>chalk\<close> styles the program uses.
\<close>

datatype styled =
    Plain string
  | InverseBgBlack string
  | Yellow string
  | Green string
  | Red string

datatype stream = Stdout | Stderr

datatype error = Error string

fun message :: "error \<Rightarrow> string" where
  "message (Error m) = m"

record state =
  files :: "string \<rightharpoonup> string"
  readonly :: "string set"
  console :: "(stream \<times> styled list) list"

definition log :: "styled list \<Rightarrow> state \<Rightarrow> state" where
  "log msg s = s\<lparr>console := console s @ [(Stdout, msg)]\<rparr>"

definition console_error :: "styled list \<Rightarrow> state \<Rightarrow> state" where
  "console_error msg s = s\<lparr>console := console s @ [(Stderr, msg)]\<rparr>"

text \<open>\<open>fs.readFile(path, 'utf8')\<close>: rejects when there is no such file.\<close>

definition readFile :: "string \<Rightarrow> state \<Rightarrow> error + string" where
  "readFile path s =
     (case files s path of
        None \<Rightarrow> Inl (Error (''ENOENT: no such file or directory, open '' @ [CHR 0x27] @ path @ [CHR 0x27]))
      | Some contents \<Rightarrow> Inr contents)"

text \<open>\<open>fs.writeFile(path, data, 'utf8')\<close>: replaces the file, or rejects when it may not.\<close>

definition writeFile :: "string \<Rightarrow> string \<Rightarrow> state \<Rightarrow> error + state" where
  "writeFile path data s =
     (if path \<in> readonly s
      then Inl (Error (''EACCES: permission denied, open '' @ [CHR 0x27] @ path @ [CHR 0x27]))
      else Inr (s\<lparr>files := (files s)(path \<mapsto> data)\<rparr>))"

subsection \<open>JSON.stringify with an indentation\<close>

definition hex_digit :: "nat \<Rightarrow> char" where
  "hex_digit n = (if n < 10 then char_of (48 + n) else char_of (87 + n))"

definition JSON_escape :: "char \<Rightarrow> string" where
  "JSON_escape c =
     (if c = CHR 0x08 then [CHR 0x5C, CHR ''b'']
      else if c = CHR 0x09 then [CHR 0x5C, CHR ''t'']
      else if c = CHR 0x0A then [CHR 0x5C, CHR ''n'']
      else if c = CHR 0x0C then [CHR 0x5C, CHR ''f'']
      else if c = CHR 0x0D then [CHR 0x5C, CHR ''r'']
      else if c = CHR 0x22 then [CHR 0x5C, CHR 0x22]
      else if c = CHR 0x5C then [CHR 0x5C, CHR 0x5C]
      else if (of_char c :: nat) < 32
        then [CHR 0x5C, CHR ''u'', CHR ''0'', CHR ''0''] @ [hex_digit ((of_char c :: nat) div 16), hex_digit ((of_char c :: nat) mod 16)]
      else [c])"

definition JSON_quote :: "string \<Rightarrow> string" where
  "JSON_quote s = [CHR 0x22] @ concat (map JSON_escape s) @ [CHR 0x22]"

text \<open>
  \<open>JSON.stringify(value, null, gap)\<close> for a positive \<open>gap\<close> (the program passes 2):
  one element or property per line, indented by \<open>gap\<close> more spaces at each level.
\<close>

fun stringify_value :: "nat \<Rightarrow> nat \<Rightarrow> js \<Rightarrow> string"
  and stringify_elements :: "nat \<Rightarrow> nat \<Rightarrow> js list \<Rightarrow> string list"
  and stringify_properties :: "nat \<Rightarrow> nat \<Rightarrow> (string \<times> js) list \<Rightarrow> string list"
where
  "stringify_value gap ind (Str s) = JSON_quote s"
| "stringify_value gap ind (Num n) = number_toString n"
| "stringify_value gap ind (Arr xs) =
     (if xs = [] then ''[]''
      else ''['' @ [CHR 0x0A]
           @ join_js (stringify_elements gap (ind + gap) xs) ('','' @ [CHR 0x0A])
           @ [CHR 0x0A] @ replicate ind CHR '' '' @ '']'')"
| "stringify_value gap ind (Obj ps) =
     (if ps = [] then ''{}''
      else ''{'' @ [CHR 0x0A]
           @ join_js (stringify_properties gap (ind + gap) ps) ('','' @ [CHR 0x0A])
           @ [CHR 0x0A] @ replicate ind CHR '' '' @ ''}'')"
| "stringify_elements gap ind [] = []"
| "stringify_elements gap ind (x # xs) =
     (replicate ind CHR '' '' @ stringify_value gap ind x) # stringify_elements gap ind xs"
| "stringify_properties gap ind [] = []"
| "stringify_properties gap ind ((k, v) # ps) =
     (replicate ind CHR '' '' @ JSON_quote k @ '': '' @ stringify_value gap ind v)
       # stringify_properties gap ind ps"

definition JSON_stringify :: "js \<Rightarrow> nat \<Rightarrow> string" where
  "JSON_stringify v gap = stringify_value gap 0 v"

section \<open>Reports\<close>

definition messageLog :: "string \<Rightarrow> string \<Rightarrow> int \<Rightarrow> int \<Rightarrow> string option \<Rightarrow> styled list" where
  "messageLog segmento segmentoType from to caminho =
     [ Plain ([CHR 0x0A] @ ''----- Cnab linha ''), Plain segmentoType,
       Plain ('' -----'' @ [CHR 0x0A, CHR 0x0A] @ ''posi'' @ [CHR 0xE7, CHR 0xE3] @ ''o from: ''),
       InverseBgBlack (number_toString from),
       Plain ([CHR 0x0A, CHR 0x0A] @ ''posi'' @ [CHR 0xE7, CHR 0xE3] @ ''o to: ''),
       InverseBgBlack (number_toString to),
       Plain ([CHR 0x0A, CHR 0x0A] @ ''item isolado: ''),
       InverseBgBlack (substring segmento (from - 1) (Some to)),
       Plain ([CHR 0x0A, CHR 0x0A] @ ''item dentro da linha ''), Plain segmentoType,
       Plain ('': '' @ [CHR 0x0A] @ ''  ''),
       Plain (substring segmento 0 (Some (from - 1))),
       InverseBgBlack (substring segmento (from - 1) (Some to)),
       Plain (substring segmento to None),
       Plain ([CHR 0x0A, CHR 0x0A] @ ''----- FIM ------'' @ [CHR 0x0A]) ]"

definition segmentMessageLog :: "string list \<Rightarrow> string \<Rightarrow> int \<Rightarrow> int \<Rightarrow> styled list" where
  "segmentMessageLog segmentos segmentoType from to =
     [ Plain ([CHR 0x0A] @ ''----- Cnab segmento ''), Plain segmentoType,
       Plain ('' -----'' @ [CHR 0x0A]) ]
     @ join_js
         (map (\<lambda>segmento.
                 [ Plain (substring segmento 0 (Some (from - 1))),
                   InverseBgBlack (substring segmento (from - 1) (Some to)),
                   Plain (substring segmento to None) ])
              segmentos)
         [Plain [CHR 0x0A]]
     @ [ Plain ([CHR 0x0A] @ ''----- FIM ------'' @ [CHR 0x0A]) ]"

section \<open>Export\<close>

definition exportToJson :: "string list \<Rightarrow> string \<Rightarrow> state \<Rightarrow> error + (string \<times> state)" where
  "exportToJson data outPath s =
     (let parsedData = map (\<lambda>line. parseCnabQSegmentLine line) data
      in case writeFile outPath (JSON_stringify (Arr parsedData) 2) s of
           Inl e \<Rightarrow> Inl e
         | Inr s' \<Rightarrow> Inr (''Arquivo JSON exportado para: '' @ outPath, s'))"

section \<open>Loading\<close>

record document =
  full :: "string list"
  header :: "string list"
  body :: "string list"
  tail :: "string list"

text \<open>\<open>[...arr].slice(...positions)\<close>: the positions given are passed on to \<open>slice\<close>.\<close>

fun sliceArrayPosition :: "'a list \<Rightarrow> int list \<Rightarrow> 'a list" where
  "sliceArrayPosition arr [] = js_slice arr 0 None"
| "sliceArrayPosition arr [start] = js_slice arr start None"
| "sliceArrayPosition arr (start # fin # rest) = js_slice arr start (Some fin)"

definition readCnabFile :: "string \<Rightarrow> state \<Rightarrow> error + document" where
  "readCnabFile filePath s =
     (case readFile filePath s of
        Inl e \<Rightarrow> Inl e
      | Inr file \<Rightarrow>
          (let cnabArray = split_js file CHR 0x0A
           in Inr \<lparr> full = cnabArray,
                    header = sliceArrayPosition cnabArray [0, 2],
                    body = sliceArrayPosition cnabArray [2, - 2],
                    tail = sliceArrayPosition cnabArray [- 2] \<rparr>))"

section \<open>Queries\<close>

definition searchSegmentPositions ::
  "string list \<Rightarrow> string \<Rightarrow> int \<Rightarrow> int \<Rightarrow> string option \<Rightarrow> state \<Rightarrow> state" where
  "searchSegmentPositions cnabBody segmentoType from to arquivoPath s =
     (case find (\<lambda>line. index_str line (SEGMENT_INDEX CNAB_POSITIONS) = Some segmentoType) cnabBody of
        None \<Rightarrow> log [Yellow ''Nenhuma linha encontrada para o tipo de segmento informado.''] s
      | Some register \<Rightarrow>
          if register \<noteq> []
          then log (messageLog register segmentoType from to arquivoPath) s
          else log [Yellow ''Nenhuma linha encontrada para o tipo de segmento informado.''] s)"

definition searchBySegmentType :: "string list \<Rightarrow> string \<Rightarrow> state \<Rightarrow> state" where
  "searchBySegmentType cnabBody segmentoType s =
     (let foundSegment =
            filter (\<lambda>line. index_str line (SEGMENT_INDEX CNAB_POSITIONS) = Some segmentoType) cnabBody
      in if length foundSegment \<noteq> 0
         then log (segmentMessageLog foundSegment segmentoType
                     (SEGMENT_INDEX CNAB_POSITIONS + 1) (SEGMENT_INDEX CNAB_POSITIONS + 1)) s
         else log [Yellow ''Nenhum segmento encontrado.''] s)"

text \<open>
  The pattern searched is \<open>companyName.toUpperCase()\<close>. A pattern with a code unit above
  255 is not empty and occurs in no slice of a line, whose code units are all below 256.
\<close>

definition searchByCompanyName :: "string list \<Rightarrow> string \<Rightarrow> string option \<Rightarrow> state \<Rightarrow> state" where
  "searchByCompanyName cnabBody companyName arquivoPath s =
     (let foundCompanies =
            filter (\<lambda>line.
                      index_str line (SEGMENT_INDEX CNAB_POSITIONS) = Some ''Q'' \<and>
                      (case toUpperCase companyName of
                         None \<Rightarrow> False
                       | Some pattern \<Rightarrow>
                           includes_js
                             (js_slice line (START (COMPANY_NAME CNAB_POSITIONS))
                                (Some (END (COMPANY_NAME CNAB_POSITIONS))))
                             pattern))
                   cnabBody;
          s1 = foldl (\<lambda>st line.
                        let endIndex =
                              int (length (trim (js_slice line (START (COMPANY_NAME CNAB_POSITIONS))
                                                   (Some (END (COMPANY_NAME CNAB_POSITIONS))))))
                        in log (messageLog line ''Q''
                                  (START (COMPANY_NAME CNAB_POSITIONS) + 1)
                                  (START (COMPANY_NAME CNAB_POSITIONS) + endIndex)
                                  arquivoPath) st)
                     s foundCompanies
      in if length foundCompanies = 0
         then log [Yellow ''Nenhuma empresa encontrada com esse nome.''] s1
         else s1)"

definition exportToJsonFile :: "string list \<Rightarrow> string \<Rightarrow> state \<Rightarrow> state" where
  "exportToJsonFile cnabArray jsonPath s =
     (let data = filter (\<lambda>line. index_str line (SEGMENT_INDEX CNAB_POSITIONS) = Some ''Q'') cnabArray
      in case exportToJson data jsonPath s of
           Inr (result, s') \<Rightarrow> log [Green result] s'
         | Inl e \<Rightarrow>
             console_error [Red ''Erro ao exportar para JSON:'', Plain '' '', Plain (message e)] s)"

section \<open>Dispatch\<close>

text \<open>
  The parsed command line. An option that was not given is \<open>undefined\<close> (\<open>None\<close>);
  a condition holds for a number that is given and not zero, for a string that is given
  and not empty, and for a flag that is given and true.

  The segment type passed on is \<open>segmento.toUpperCase()\<close>. When that string has a code
  unit above 255 it equals the character at index 13 of no line, so that \<open>find\<close>
  returns \<open>undefined\<close> and \<open>filter\<close> the empty array: the two searches by segment type
  then print their message for no match.
\<close>

record options =
  opt_from :: "int option"
  opt_to :: "int option"
  opt_segmento :: "string option"
  opt_buscar :: "bool option"
  opt_nome :: "string option"
  opt_json :: "string option"
  opt_arquivo :: "string option"

fun truthy_boolean :: "bool option \<Rightarrow> bool" where
  "truthy_boolean None = False"
| "truthy_boolean (Some b) = b"

definition processCommandArguments :: "options \<Rightarrow> document \<Rightarrow> state \<Rightarrow> state" where
  "processCommandArguments opts cnabData s =
     (let s1 = (case (opt_from opts, opt_to opts, opt_segmento opts) of
                  (Some from, Some to, Some segmento) \<Rightarrow>
                    if from \<noteq> 0 \<and> to \<noteq> 0 \<and> segmento \<noteq> []
                    then (case toUpperCase segmento of
                            Some segmentoType \<Rightarrow>
                              searchSegmentPositions (body cnabData) segmentoType from to
                                (opt_arquivo opts) s
                          | None \<Rightarrow>
                              log [Yellow ''Nenhuma linha encontrada para o tipo de segmento informado.''] s)
                    else s
                | _ \<Rightarrow> s);
          s2 = (if truthy_boolean (opt_buscar opts)
                then (case opt_segmento opts of
                        Some segmento \<Rightarrow>
                          if segmento \<noteq> []
                          then (case toUpperCase segmento of
                                  Some segmentoType \<Rightarrow>
                                    searchBySegmentType (body cnabData) segmentoType s1
                                | None \<Rightarrow> log [Yellow ''Nenhum segmento encontrado.''] s1)
                          else s1
                      | None \<Rightarrow> s1)
                else s1);
          s3 = (if truthy_boolean (opt_buscar opts)
                then (case opt_nome opts of
                        Some nome \<Rightarrow>
                          if nome \<noteq> []
                          then searchByCompanyName (body cnabData) nome (opt_arquivo opts) s2
                          else s2
                      | None \<Rightarrow> s2)
                else s2)
      in case opt_json opts of
           Some json \<Rightarrow> if json \<noteq> [] then exportToJsonFile (full cnabData) json s3 else s3
         | None \<Rightarrow> s3)"

section \<open>Reading JSON text\<close>

text \<open>
  What a written JSON text contains is what a reader of JSON gets from it. The reader
  below accepts strings with their escapes, integers, arrays and objects, with white
  space between the tokens, and gives the value read, or \<open>None\<close> for a text that is not
  of this form. It is used only to state what the exported file holds. The recursion of
  the reader is bounded by a counter that starts above the length of the text.
\<close>

definition is_json_space :: "char \<Rightarrow> bool" where
  "is_json_space c = (c = CHR 0x20 \<or> c = CHR 0x0A \<or> c = CHR 0x0D \<or> c = CHR 0x09)"

definition skip_space :: "string \<Rightarrow> string" where
  "skip_space t = dropWhile is_json_space t"

definition is_digit :: "char \<Rightarrow> bool" where
  "is_digit c = (48 \<le> (of_char c :: nat) \<and> (of_char c :: nat) \<le> 57)"

definition hex_value :: "char \<Rightarrow> nat option" where
  "hex_value c =
     (let n = (of_char c :: nat)
      in if 48 \<le> n \<and> n \<le> 57 then Some (n - 48)
         else if 97 \<le> n \<and> n \<le> 102 then Some (n - 87)
         else if 65 \<le> n \<and> n \<le> 70 then Some (n - 55)
         else None)"

definition unescape :: "char \<Rightarrow> char option" where
  "unescape e =
     (if e = CHR ''b'' then Some (CHR 0x08)
      else if e = CHR ''t'' then Some (CHR 0x09)
      else if e = CHR ''n'' then Some (CHR 0x0A)
      else if e = CHR ''f'' then Some (CHR 0x0C)
      else if e = CHR ''r'' then Some (CHR 0x0D)
      else if e = CHR 0x22 then Some (CHR 0x22)
      else if e = CHR 0x5C then Some (CHR 0x5C)
      else if e = CHR ''/'' then Some (CHR ''/'')
      else None)"

fun parse_chars :: "string \<Rightarrow> (string \<times> string) option" where
  "parse_chars [] = None"
| "parse_chars (c # r) =
     (if c = CHR 0x22 then Some ([], r)
      else if c = CHR 0x5C then
        (case r of
           [] \<Rightarrow> None
         | e # r1 \<Rightarrow>
             if e = CHR ''u'' then
               (case r1 of
                  h1 # h2 # h3 # h4 # r2 \<Rightarrow>
                    (case (hex_value h1, hex_value h2, hex_value h3, hex_value h4) of
                       (Some a, Some b, Some c', Some d) \<Rightarrow>
                         if ((a * 16 + b) * 16 + c') * 16 + d < 256
                         then (case parse_chars r2 of
                                 None \<Rightarrow> None
                               | Some (s, t) \<Rightarrow>
                                   Some (char_of (((a * 16 + b) * 16 + c') * 16 + d) # s, t))
                         else None
                     | _ \<Rightarrow> None)
                | _ \<Rightarrow> None)
             else (case unescape e of
                     None \<Rightarrow> None
                   | Some d \<Rightarrow>
                       (case parse_chars r1 of None \<Rightarrow> None | Some (s, t) \<Rightarrow> Some (d # s, t))))
      else if (of_char c :: nat) < 32 then None
      else (case parse_chars r of None \<Rightarrow> None | Some (s, t) \<Rightarrow> Some (c # s, t)))"

definition parse_nat :: "string \<Rightarrow> (nat \<times> string) option" where
  "parse_nat t =
     (let ds = takeWhile is_digit t
      in if ds = [] then None
         else Some (foldl (\<lambda>a c. 10 * a + ((of_char c :: nat) - 48)) 0 ds, dropWhile is_digit t))"

definition parse_int :: "string \<Rightarrow> (int \<times> string) option" where
  "parse_int t =
     (case t of
        [] \<Rightarrow> None
      | c # r \<Rightarrow>
          if c = CHR ''-''
          then (case parse_nat r of None \<Rightarrow> None | Some (n, r') \<Rightarrow> Some (- int n, r'))
          else (case parse_nat t of None \<Rightarrow> None | Some (n, r') \<Rightarrow> Some (int n, r')))"

fun parse_value :: "nat \<Rightarrow> string \<Rightarrow> (js \<times> string) option"
  and parse_elements :: "nat \<Rightarrow> string \<Rightarrow> (js list \<times> string) option"
  and parse_members :: "nat \<Rightarrow> string \<Rightarrow> ((string \<times> js) list \<times> string) option"
where
  "parse_value 0 t = None"
| "parse_value (Suc n) t =
     (case skip_space t of
        [] \<Rightarrow> None
      | c # r \<Rightarrow>
          if c = CHR 0x22
          then (case parse_chars r of None \<Rightarrow> None | Some (s, r') \<Rightarrow> Some (Str s, r'))
          else if c = CHR ''[''
          then (case skip_space r of
                  [] \<Rightarrow> None
                | d # r' \<Rightarrow>
                    if d = CHR '']'' then Some (Arr [], r')
                    else (case parse_elements n r of
                            None \<Rightarrow> None
                          | Some (xs, r'') \<Rightarrow> Some (Arr xs, r'')))
          else if c = CHR ''{''
          then (case skip_space r of
                  [] \<Rightarrow> None
                | d # r' \<Rightarrow>
                    if d = CHR ''}'' then Some (Obj [], r')
                    else (case parse_members n r of
                            None \<Rightarrow> None
                          | Some (ps, r'') \<Rightarrow> Some (Obj ps, r'')))
          else (case parse_int (c # r) of None \<Rightarrow> None | Some (i, r') \<Rightarrow> Some (Num i, r')))"
| "parse_elements 0 t = None"
| "parse_elements (Suc n) t =
     (case parse_value n t of
        None \<Rightarrow> None
      | Some (x, r) \<Rightarrow>
          (case skip_space r of
             [] \<Rightarrow> None
           | c # r' \<Rightarrow>
               if c = CHR '',''
               then (case parse_elements n r' of
                       None \<Rightarrow> None
                     | Some (xs, r'') \<Rightarrow> Some (x # xs, r''))
               else if c = CHR '']'' then Some ([x], r')
               else None))"
| "parse_members 0 t = None"
| "parse_members (Suc n) t =
     (case skip_space t of
        [] \<Rightarrow> None
      | q # r \<Rightarrow>
          if q = CHR 0x22
          then (case parse_chars r of
                  None \<Rightarrow> None
                | Some (k, r1) \<Rightarrow>
                    (case skip_space r1 of
                       [] \<Rightarrow> None
                     | c # r2 \<Rightarrow>
                         if c = CHR '':''
                         then (case parse_value n r2 of
                                 None \<Rightarrow> None
                               | Some (v, r3) \<Rightarrow>
                                   (case skip_space r3 of
                                      [] \<Rightarrow> None
                                    | d # r4 \<Rightarrow>
                                        if d = CHR '',''
                                        then (case parse_members n r4 of
                                                None \<Rightarrow> None
                                              | Some (ps, r5) \<Rightarrow> Some ((k, v) # ps, r5))
                                        else if d = CHR ''}'' then Some ([(k, v)], r4)
                                        else None))
                         else None))
          else None)"

definition JSON_parse :: "string \<Rightarrow> js option" where
  "JSON_parse text =
     (case parse_value (Suc (length text)) text of
        None \<Rightarrow> None
      | Some (v, r) \<Rightarrow> if skip_space r = [] then Some v else None)"

section \<open>Sample data\<close>

text \<open>A run starts with nothing printed; the sample state has no files.\<close>

definition init_state :: state where
  "init_state = \<lparr> files = Map.empty, readonly = {}, console = [] \<rparr>"

text \<open>
  A Q line of 240 characters: the discriminator at index 13, the company name
  ACME CORP LTDA from index 33, padded with spaces up to index 73.
\<close>

definition acme_line :: string where
  "acme_line =
     replicate 13 CHR ''0'' @ ''Q'' @ replicate 19 CHR ''1''
     @ ''ACME CORP LTDA'' @ replicate 26 CHR '' ''
     @ ''RUA DAS FLORES 100'' @ replicate 22 CHR '' ''
     @ ''CENTRO'' @ replicate 9 CHR '' ''
     @ ''01310100''
     @ ''SAO PAULO'' @ replicate 6 CHR '' ''
     @ ''SP '' @ replicate 86 CHR ''0''"

text \<open>
  A Q line of 240 characters whose name field holds two blanks, a name of nine
  characters with the Latin-1 letters 0xC7 and 0xC3, and blanks up to index 73.
\<close>

definition acao_line :: string where
  "acao_line =
     replicate 13 CHR ''0'' @ ''Q'' @ replicate 19 CHR ''1''
     @ ''  A'' @ [CHR 0xC7, CHR 0xC3] @ ''O LTDA'' @ replicate 29 CHR '' ''
     @ replicate 167 CHR ''0''"

text \<open>Short lines of 14 characters with the discriminators P, Q and R.\<close>

definition p_line :: string where
  "p_line = ''0123456789ABCP''"

definition q_line :: string where
  "q_line = ''0123456789ABCQ''"

definition r_line :: string where
  "r_line = ''0123456789ABCR''"

text \<open>
  A document of 15 lines, 5 of them with the discriminator Q: one in the header, three
  in the body and one in the trailer.
\<close>

definition sample_document :: document where
  "sample_document =
     \<lparr> full = [q_line, p_line,
               p_line, acme_line, r_line, p_line, q_line, r_line, p_line, acme_line,
               r_line, p_line, r_line,
               r_line, q_line],
       header = [q_line, p_line],
       body = [p_line, acme_line, r_line, p_line, q_line, r_line, p_line, acme_line,
               r_line, p_line, r_line],
       tail = [r_line, q_line] \<rparr>"

section \<open>Facts about the built-ins\<close>

lemma js_slice_nonneg:
  "0 \<le> a \<Longrightarrow> 0 \<le> b \<Longrightarrow> js_slice xs a (Some b) = take (nat b - nat a) (drop (nat a) xs)"
  by (auto simp: js_slice_def rel_index_def Let_def min_def)

lemma index_str_iff:
  "index_str line 13 = Some t \<longleftrightarrow> 13 < length line \<and> [line ! 13] = t"
  by (auto simp: index_str_def)

lemma clamp_index_le: "clamp_index len i \<le> len"
  by (simp add: clamp_index_def)

lemma clamp_index_mono: "a \<le> b \<Longrightarrow> clamp_index len a \<le> clamp_index len b"
  by (simp add: clamp_index_def)

lemma substring_ordered:
  "a \<le> b \<Longrightarrow>
     substring s a (Some b) =
       take (clamp_index (length s) b - clamp_index (length s) a) (drop (clamp_index (length s) a) s)"
  using clamp_index_mono [of a b "length s"]
  by (simp add: substring_def Let_def min_def max_def)

lemma substring_swapped:
  "b \<le> a \<Longrightarrow>
     substring s a (Some b) =
       take (clamp_index (length s) a - clamp_index (length s) b) (drop (clamp_index (length s) b) s)"
  using clamp_index_mono [of b a "length s"]
  by (auto simp add: substring_def Let_def min_def max_def)

lemma substring_to_end: "substring s a None = drop (clamp_index (length s) a) s"
  using clamp_index_le [of "length s" a]
  by (simp add: substring_def Let_def min_def max_def)

lemma substring_from_start: "substring s 0 (Some a) = take (clamp_index (length s) a) s"
  by (simp add: substring_def Let_def clamp_index_def)

lemma take_drop_glue: "i \<le> j \<Longrightarrow> take i xs @ take (j - i) (drop i xs) @ drop j xs = xs"
proof -
  assume ij: "i \<le> j"
  have "take (j - i) (drop i xs) @ drop j xs = drop i xs"
  proof -
    have "drop j xs = drop (j - i) (drop i xs)" using ij by simp
    then show ?thesis by (simp only: append_take_drop_id)
  qed
  then show ?thesis by simp
qed

lemma find_first:
  "\<forall>x \<in> set pre. \<not> P x \<Longrightarrow> P y \<Longrightarrow> find P (pre @ y # post) = Some y"
  by (induction pre) auto




lemma split_js_nonempty: "split_js s sep \<noteq> []"
  by (induction s) auto

lemma join_split: "join_js (split_js s sep) [sep] = s"
proof (induction s)
  case Nil
  show ?case by simp
next
  case (Cons c cs)
  obtain l ls where sp: "split_js cs sep = l # ls"
    using split_js_nonempty [of cs sep] by (cases "split_js cs sep") auto
  show ?case
  proof (cases "c = sep")
    case True
    with Cons sp show ?thesis by simp
  next
    case False
    with Cons sp show ?thesis by (cases ls) auto
  qed
qed

lemma split_js_no_sep: "l \<in> set (split_js s sep) \<Longrightarrow> sep \<notin> set l"
proof (induction s arbitrary: l)
  case Nil
  then show ?case by simp
next
  case (Cons c cs)
  obtain h t where sp: "split_js cs sep = h # t"
    using split_js_nonempty [of cs sep] by (cases "split_js cs sep") auto
  show ?case
  proof (cases "c = sep")
    case True
    with Cons show ?thesis by auto
  next
    case False
    with Cons.prems sp have "l = c # h \<or> l \<in> set t" by auto
    then show ?thesis
    proof
      assume "l = c # h"
      moreover have "sep \<notin> set h" using Cons.IH [of h] sp by simp
      ultimately show ?thesis using False by auto
    next
      assume "l \<in> set t"
      then show ?thesis using Cons.IH [of l] sp by simp
    qed
  qed
qed



lemma char_of_digits:
  "char_of (48::nat) = CHR ''0''" "char_of (49::nat) = CHR ''1''" "char_of (50::nat) = CHR ''2''"
  "char_of (51::nat) = CHR ''3''" "char_of (52::nat) = CHR ''4''" "char_of (53::nat) = CHR ''5''"
  "char_of (54::nat) = CHR ''6''" "char_of (55::nat) = CHR ''7''" "char_of (56::nat) = CHR ''8''"
  "char_of (57::nat) = CHR ''9''"
  by code_simp+

lemma find_index_str:
  "find (\<lambda>line. index_str line (SEGMENT_INDEX CNAB_POSITIONS) = Some t) xs
     = find (\<lambda>line. 13 < length line \<and> [line ! 13] = t) xs"
proof -
  have "(\<lambda>line. index_str line (SEGMENT_INDEX CNAB_POSITIONS) = Some t)
          = (\<lambda>line. 13 < length line \<and> [line ! 13] = t)"
    by (auto simp: CNAB_POSITIONS_def index_str_iff)
  then show ?thesis by simp
qed

lemma filter_index_str:
  "filter (\<lambda>line. index_str line (SEGMENT_INDEX CNAB_POSITIONS) = Some t) xs
     = filter (\<lambda>line. 13 < length line \<and> [line ! 13] = t) xs"
proof -
  have "(\<lambda>line. index_str line (SEGMENT_INDEX CNAB_POSITIONS) = Some t)
          = (\<lambda>line. 13 < length line \<and> [line ! 13] = t)"
    by (auto simp: CNAB_POSITIONS_def index_str_iff)
  then show ?thesis by simp
qed

lemma find_Some_holds: "find P xs = Some x \<Longrightarrow> P x"
  by (induction xs) (auto split: if_splits)

lemma searchSegmentPositions_unfold:
  "searchSegmentPositions cnabBody t from to p s =
     (case find (\<lambda>line. 13 < length line \<and> [line ! 13] = t) cnabBody of
        None \<Rightarrow> log [Yellow ''Nenhuma linha encontrada para o tipo de segmento informado.''] s
      | Some register \<Rightarrow> log (messageLog register t from to p) s)"
proof (cases "find (\<lambda>line. 13 < length line \<and> [line ! 13] = t) cnabBody")
  case None
  then show ?thesis by (simp add: searchSegmentPositions_def find_index_str)
next
  case (Some r)
  then have "13 < length r" using find_Some_holds [OF Some] by simp
  then have "r \<noteq> []" by auto
  with Some show ?thesis by (simp add: searchSegmentPositions_def find_index_str)
qed

text \<open>
  A segment type that is the character at index 13 of no line gives the message for no
  match; this is the case of a segment type with a code unit above 255.
\<close>

lemma searchSegmentPositions_no_match:
  assumes "\<forall>l \<in> set cnabBody. \<not> (13 < length l \<and> [l ! 13] = t)"
  shows "searchSegmentPositions cnabBody t from to p s =
           log [Yellow ''Nenhuma linha encontrada para o tipo de segmento informado.''] s"
proof -
  have "find (\<lambda>line. 13 < length line \<and> [line ! 13] = t) cnabBody = None"
    using assms by (simp add: find_None_iff)
  then show ?thesis by (simp add: searchSegmentPositions_unfold)
qed

lemma searchBySegmentType_no_match:
  assumes "\<forall>l \<in> set cnabBody. \<not> (13 < length l \<and> [l ! 13] = t)"
  shows "searchBySegmentType cnabBody t s = log [Yellow ''Nenhum segmento encontrado.''] s"
proof -
  have "filter (\<lambda>line. 13 < length line \<and> [line ! 13] = t) cnabBody = []"
    using assms by (simp add: filter_empty_conv)
  then show ?thesis
    unfolding searchBySegmentType_def filter_index_str by (simp add: Let_def)
qed


lemma is_white_space_iff:
  "is_white_space c \<longleftrightarrow>
     c \<in> {CHR 0x09, CHR 0x0A, CHR 0x0B, CHR 0x0C, CHR 0x0D, CHR 0x20, CHR 0xA0}"
  by (auto simp: is_white_space_def)

lemma trim_decompose:
  "s = takeWhile is_white_space s @ trim s
         @ rev (takeWhile is_white_space (rev (dropWhile is_white_space s)))"
proof -
  define t where "t = dropWhile is_white_space s"
  have "rev (dropWhile is_white_space (rev t)) @ rev (takeWhile is_white_space (rev t))
          = rev (takeWhile is_white_space (rev t) @ dropWhile is_white_space (rev t))"
    by (simp only: rev_append)
  also have "\<dots> = t" by simp
  finally have "t = rev (dropWhile is_white_space (rev t)) @ rev (takeWhile is_white_space (rev t))"
    by simp
  then have t: "t = trim s @ rev (takeWhile is_white_space (rev t))"
    by (simp add: trim_def t_def)
  have "s = takeWhile is_white_space s @ t" by (simp add: t_def)
  with t show ?thesis unfolding t_def by simp
qed

lemma trim_first: "trim s \<noteq> [] \<Longrightarrow> \<not> is_white_space (hd (trim s))"
proof -
  assume ne: "trim s \<noteq> []"
  define t where "t = dropWhile is_white_space s"
  have t: "t = trim s @ rev (takeWhile is_white_space (rev t))"
    using trim_decompose [of s] unfolding t_def
    by (metis same_append_eq takeWhile_dropWhile_id)
  with ne have tne: "t \<noteq> []" by auto
  have "hd t = hd (trim s)" using t ne by (metis hd_append2)
  moreover have "\<not> is_white_space (hd t)" using tne unfolding t_def by (rule hd_dropWhile)
  ultimately show ?thesis by simp
qed

lemma trim_last: "trim s \<noteq> [] \<Longrightarrow> \<not> is_white_space (last (trim s))"
proof -
  assume ne: "trim s \<noteq> []"
  define r where "r = dropWhile is_white_space (rev (dropWhile is_white_space s))"
  have tr: "trim s = rev r" by (simp add: trim_def r_def)
  with ne have rne: "r \<noteq> []" by simp
  then have "\<not> is_white_space (hd r)" unfolding r_def by (rule hd_dropWhile)
  moreover have "last (trim s) = hd r" using rne by (simp add: tr last_rev)
  ultimately show ?thesis by simp
qed

lemma trim_characterised:
  "\<exists>a b. s = a @ trim s @ b
      \<and> set a \<subseteq> {CHR 0x09, CHR 0x0A, CHR 0x0B, CHR 0x0C, CHR 0x0D, CHR 0x20, CHR 0xA0}
      \<and> set b \<subseteq> {CHR 0x09, CHR 0x0A, CHR 0x0B, CHR 0x0C, CHR 0x0D, CHR 0x20, CHR 0xA0}
      \<and> (trim s = [] \<or>
           hd (trim s) \<notin> {CHR 0x09, CHR 0x0A, CHR 0x0B, CHR 0x0C, CHR 0x0D, CHR 0x20, CHR 0xA0}
           \<and> last (trim s) \<notin> {CHR 0x09, CHR 0x0A, CHR 0x0B, CHR 0x0C, CHR 0x0D, CHR 0x20, CHR 0xA0})"
proof -
  define a where "a = takeWhile is_white_space s"
  define b where "b = rev (takeWhile is_white_space (rev (dropWhile is_white_space s)))"
  have dec: "s = a @ trim s @ b" unfolding a_def b_def by (rule trim_decompose)
  have "\<forall>c \<in> set a. is_white_space c" unfolding a_def by (auto dest: set_takeWhileD)
  then have wa: "set a \<subseteq> {CHR 0x09, CHR 0x0A, CHR 0x0B, CHR 0x0C, CHR 0x0D, CHR 0x20, CHR 0xA0}"
    by (auto simp: is_white_space_iff)
  have "\<forall>c \<in> set b. is_white_space c" unfolding b_def by (auto dest: set_takeWhileD)
  then have wb: "set b \<subseteq> {CHR 0x09, CHR 0x0A, CHR 0x0B, CHR 0x0C, CHR 0x0D, CHR 0x20, CHR 0xA0}"
    by (auto simp: is_white_space_iff)
  have ends: "trim s = [] \<or>
           hd (trim s) \<notin> {CHR 0x09, CHR 0x0A, CHR 0x0B, CHR 0x0C, CHR 0x0D, CHR 0x20, CHR 0xA0}
           \<and> last (trim s) \<notin> {CHR 0x09, CHR 0x0A, CHR 0x0B, CHR 0x0C, CHR 0x0D, CHR 0x20, CHR 0xA0}"
    using trim_first [of s] trim_last [of s] unfolding is_white_space_iff by blast
  from dec wa wb ends show ?thesis by blast
qed








lemma acme_line_discriminator: "13 < length acme_line \<and> acme_line ! 13 = CHR ''Q''"
  by code_simp






lemma acao_line_name:
  "trim (take 40 (drop 33 acao_line)) = ''A'' @ [CHR 0xC7, CHR 0xC3] @ ''O LTDA''"
  by code_simp





lemma acme_line_parsed:
  "parseCnabQSegmentLine acme_line =
     Obj [
       (''nome'', Obj [(''value'', Str ''ACME CORP LTDA''), (''from'', Num 33), (''to'', Num 73)]),
       (''endereco'', Obj [(''value'', Str ''RUA DAS FLORES 100''),
                           (''from'', Num 73), (''to'', Num 113)]),
       (''bairro'', Obj [(''value'', Str ''CENTRO''), (''from'', Num 113), (''to'', Num 128)]),
       (''cep'', Obj [(''value'', Str ''01310100''), (''from'', Num 128), (''to'', Num 136)]),
       (''cidade'', Obj [(''value'', Str ''SAO PAULO''), (''from'', Num 136), (''to'', Num 151)]),
       (''estado'', Obj [(''value'', Str ''SP ''), (''from'', Num 151), (''to'', Num 154)])]"
  by code_simp

lemma acao_line_field:
  "take 40 (drop 33 acao_line) = ''  A'' @ [CHR 0xC7, CHR 0xC3] @ ''O LTDA'' @ replicate 29 CHR '' ''"
  by code_simp

lemma sliceArrayPosition_header: "sliceArrayPosition xs [0, 2] = take 2 xs"
  by (simp add: js_slice_def rel_index_def Let_def min_def)

lemma sliceArrayPosition_body:
  "sliceArrayPosition xs [2, - 2] = drop 2 (take (length xs - 2) xs)"
proof (cases "2 \<le> length xs")
  case True
  then have "rel_index (length xs) 2 = 2" and "rel_index (length xs) (- 2) = length xs - 2"
    by (simp_all add: rel_index_def)
  then show ?thesis by (simp add: js_slice_def Let_def drop_take)
next
  case False
  then have "rel_index (length xs) 2 = length xs" and "rel_index (length xs) (- 2) = 0"
    by (simp_all add: rel_index_def)
  with False show ?thesis by (simp add: js_slice_def Let_def)
qed

lemma sliceArrayPosition_tail: "sliceArrayPosition xs [- 2] = drop (length xs - 2) xs"
proof -
  have "rel_index (length xs) (- 2) = length xs - 2"
    by (simp add: rel_index_def)
  then show ?thesis by (simp add: js_slice_def Let_def)
qed

lemma split_js_list_all: "list_all (\<lambda>l. sep \<notin> set l) (split_js file sep)"
  using split_js_no_sep by (auto simp: list_all_iff)

lemma q_filter_eq:
  "filter (\<lambda>line. index_str line (SEGMENT_INDEX CNAB_POSITIONS) = Some ''Q'') xs
     = filter (\<lambda>line. 13 < length line \<and> line ! 13 = CHR ''Q'') xs"
  by (simp add: filter_index_str)

lemma parseCnabQSegmentLine_keys:
  "\<exists>fields. parseCnabQSegmentLine line = Obj fields
      \<and> map fst fields = [''nome'', ''endereco'', ''bairro'', ''cep'', ''cidade'', ''estado'']"
  by (simp add: parseCnabQSegmentLine_def)

lemma exportToJsonFile_writable:
  assumes "jsonPath \<notin> readonly s"
  shows "exportToJsonFile cnabArray jsonPath s =
           s\<lparr>files := (files s)(jsonPath \<mapsto>
                  JSON_stringify
                    (Arr (map parseCnabQSegmentLine
                            (filter (\<lambda>line. 13 < length line \<and> line ! 13 = CHR ''Q'') cnabArray)))
                    2),
              console := console s @
                  [(Stdout, [Green (''Arquivo JSON exportado para: '' @ jsonPath)])]\<rparr>"
  unfolding exportToJsonFile_def q_filter_eq
  using assms by (simp add: exportToJson_def writeFile_def log_def Let_def)

lemma processCommandArguments_json_only:
  assumes "jsonPath \<noteq> []"
  shows "processCommandArguments
           \<lparr> opt_from = None, opt_to = None, opt_segmento = None, opt_buscar = None,
             opt_nome = None, opt_json = Some jsonPath, opt_arquivo = arquivo \<rparr> cnabData s
         = exportToJsonFile (full cnabData) jsonPath s"
  using assms by (simp add: processCommandArguments_def)

lemma sample_lines:
  "13 < length p_line \<and> p_line ! 13 = CHR ''P''"
  "13 < length q_line \<and> q_line ! 13 = CHR ''Q''"
  "13 < length r_line \<and> r_line ! 13 = CHR ''R''"
  by (simp_all add: p_line_def q_line_def r_line_def)

text \<open>The JSON text of a small value, with an escaped quote and tabulator.\<close>

lemma JSON_stringify_sample:
  "JSON_stringify (Arr [Obj [(''value'', Str (''A'' @ [CHR 0x22, CHR 0x09] @ ''b'')), (''from'', Num 33)], Obj []]) 2 =
     ''['' @ [CHR 0x0A] @
     ''  {'' @ [CHR 0x0A] @
     ''    '' @ [CHR 0x22] @ ''value'' @ [CHR 0x22] @ '': '' @ [CHR 0x22] @ ''A'' @ [CHR 0x5C, CHR 0x22, CHR 0x5C] @ ''tb'' @ [CHR 0x22] @ '','' @ [CHR 0x0A] @
     ''    '' @ [CHR 0x22] @ ''from'' @ [CHR 0x22] @ '': 33'' @ [CHR 0x0A] @
     ''  },'' @ [CHR 0x0A] @
     ''  {}'' @ [CHR 0x0A] @
     '']''"
  by code_simp

text \<open>Reading back what \<open>JSON.stringify\<close> prints gives the value printed.\<close>

declare parse_chars.simps [simp del]

lemma of_char_char_of_small: "n < 256 \<Longrightarrow> (of_char (char_of (n::nat)) :: nat) = n"
  by simp

lemma hex_value_hex_digit: "n < 16 \<Longrightarrow> hex_value (hex_digit n) = Some n"
  by (auto simp: hex_value_def hex_digit_def Let_def)

lemma char_of_of_char_nat: "char_of (of_char c :: nat) = c"
  by simp

lemma parse_chars_escape:
  assumes "parse_chars t = Some (s, r)"
  shows "parse_chars (JSON_escape c @ t) = Some (c # s, r)"
proof -
  consider (b) "c = CHR 0x08" | (t) "c = CHR 0x09" | (n) "c = CHR 0x0A" | (f) "c = CHR 0x0C"
    | (r) "c = CHR 0x0D" | (q) "c = CHR 0x22" | (s) "c = CHR 0x5C"
    | (ctl) "c \<noteq> CHR 0x08" "c \<noteq> CHR 0x09" "c \<noteq> CHR 0x0A" "c \<noteq> CHR 0x0C" "c \<noteq> CHR 0x0D"
         "c \<noteq> CHR 0x22" "c \<noteq> CHR 0x5C" "(of_char c :: nat) < 32"
    | (plain) "c \<noteq> CHR 0x08" "c \<noteq> CHR 0x09" "c \<noteq> CHR 0x0A" "c \<noteq> CHR 0x0C" "c \<noteq> CHR 0x0D"
         "c \<noteq> CHR 0x22" "c \<noteq> CHR 0x5C" "\<not> (of_char c :: nat) < 32"
    by blast
  then show ?thesis
  proof cases
    case b then show ?thesis using assms by (simp add: JSON_escape_def parse_chars.simps unescape_def)
  next
    case t then show ?thesis using assms by (simp add: JSON_escape_def parse_chars.simps unescape_def)
  next
    case n then show ?thesis using assms by (simp add: JSON_escape_def parse_chars.simps unescape_def)
  next
    case f then show ?thesis using assms by (simp add: JSON_escape_def parse_chars.simps unescape_def)
  next
    case r then show ?thesis using assms by (simp add: JSON_escape_def parse_chars.simps unescape_def)
  next
    case q then show ?thesis using assms by (simp add: JSON_escape_def parse_chars.simps unescape_def)
  next
    case s then show ?thesis using assms by (simp add: JSON_escape_def parse_chars.simps unescape_def)
  next
    case ctl
    define k where "k = (of_char c :: nat)"
    have k: "k < 32" using ctl(8) by (simp add: k_def)
    then have hi: "hex_value (hex_digit (k div 16)) = Some (k div 16)"
      and lo: "hex_value (hex_digit (k mod 16)) = Some (k mod 16)"
      by (simp_all add: hex_value_hex_digit)
    have zero: "hex_value CHR ''0'' = Some 0" by (simp add: hex_value_def)
    have restore: "char_of (k div 16 * 16 + k mod 16) = c"
      unfolding k_def by simp
    have esc: "JSON_escape c = [CHR 0x5C, CHR ''u'', CHR ''0'', CHR ''0'',
                               hex_digit (k div 16), hex_digit (k mod 16)]"
      using ctl by (simp add: JSON_escape_def k_def)
    show ?thesis
      using assms k restore
      by (simp add: esc parse_chars.simps zero hi lo)
  next
    case plain
    then show ?thesis using assms by (simp add: JSON_escape_def parse_chars.simps)
  qed
qed

lemma parse_chars_quote:
  "parse_chars (concat (map JSON_escape s) @ CHR 0x22 # rest) = Some (s, rest)"
proof (induction s)
  case Nil
  show ?case by (simp add: parse_chars.simps)
next
  case (Cons c cs)
  show ?case using parse_chars_escape [OF Cons.IH, of c] by simp
qed

lemma is_digit_char_of: "(k::nat) < 10 \<Longrightarrow> is_digit (char_of (48 + k))"
  by (simp add: is_digit_def)

lemma digit_value_char_of: "(k::nat) < 10 \<Longrightarrow> (of_char (char_of (48 + k)) :: nat) - 48 = k"
  by simp

lemma number_toString_nat_digits:
  "number_toString_nat n \<noteq> [] \<and> (\<forall>c \<in> set (number_toString_nat n). is_digit c)"
proof (induction n rule: number_toString_nat.induct)
  case (1 n)
  show ?case
  proof (cases "n < 10")
    case True
    then show ?thesis by (simp add: number_toString_nat.simps [of n] is_digit_char_of)
  next
    case False
    have "n mod 10 < 10" by simp
    then have "is_digit (char_of (48 + n mod 10))" by (rule is_digit_char_of)
    with False 1 show ?thesis by (simp add: number_toString_nat.simps [of n])
  qed
qed

lemma number_toString_nat_value:
  "foldl (\<lambda>a c. 10 * a + ((of_char c :: nat) - 48)) 0 (number_toString_nat n) = n"
proof (induction n rule: number_toString_nat.induct)
  case (1 n)
  show ?case
  proof (cases "n < 10")
    case True
    then show ?thesis by (simp add: number_toString_nat.simps [of n])
  next
    case False
    have "n mod 10 < 10" by simp
    then have d: "(of_char (char_of (48 + n mod 10)) :: nat) - 48 = n mod 10"
      by (rule digit_value_char_of)
    from False 1 have "foldl (\<lambda>a c. 10 * a + ((of_char c :: nat) - 48)) 0
                         (number_toString_nat (n div 10)) = n div 10"
      by simp
    with False d show ?thesis by (simp add: number_toString_nat.simps [of n] del: of_char_of)
  qed
qed

lemma parse_nat_toString:
  assumes "rest = [] \<or> \<not> is_digit (hd rest)"
  shows "parse_nat (number_toString_nat n @ rest) = Some (n, rest)"
proof -
  have all: "\<forall>c \<in> set (number_toString_nat n). is_digit c" and ne: "number_toString_nat n \<noteq> []"
    using number_toString_nat_digits [of n] by simp_all
  have stop: "takeWhile is_digit rest = []" and keep: "dropWhile is_digit rest = rest"
    using assms by (cases rest; simp)+
  have tw: "takeWhile is_digit (number_toString_nat n @ rest) = number_toString_nat n"
    using all stop by (simp add: takeWhile_append2)
  have dw: "dropWhile is_digit (number_toString_nat n @ rest) = rest"
    using all keep by (simp add: dropWhile_append2)
  show ?thesis
    unfolding parse_nat_def Let_def tw dw using ne by (simp add: number_toString_nat_value)
qed

lemma number_toString_nat_first:
  "\<exists>c cs. number_toString_nat n = c # cs \<and> is_digit c"
  using number_toString_nat_digits [of n] by (cases "number_toString_nat n") auto

lemma is_digit_not_minus: "is_digit c \<Longrightarrow> c \<noteq> CHR ''-''"
  by (auto simp: is_digit_def)

lemma parse_int_toString:
  assumes "rest = [] \<or> \<not> is_digit (hd rest)"
  shows "parse_int (number_toString i @ rest) = Some (i, rest)"
proof (cases "i < 0")
  case True
  then show ?thesis
    using parse_nat_toString [OF assms, of "nat (- i)"]
    by (simp add: parse_int_def number_toString_def)
next
  case False
  obtain c cs where first: "number_toString_nat (nat i) = c # cs" and dig: "is_digit c"
    using number_toString_nat_first by blast
  have "c \<noteq> CHR ''-''" using dig by (rule is_digit_not_minus)
  then have "parse_int ((c # cs) @ rest) = Some (i, rest)"
    using parse_nat_toString [OF assms, of "nat i"] False
    by (simp add: parse_int_def first)
  with False show ?thesis by (simp add: number_toString_def first)
qed

lemma skip_space_prefix:
  assumes "\<forall>c \<in> set pre. is_json_space c" and "\<not> is_json_space c"
  shows "skip_space (pre @ c # t) = c # t"
  using assms by (simp add: skip_space_def dropWhile_append2)

lemma skip_space_all: "\<forall>c \<in> set pre. is_json_space c \<Longrightarrow> skip_space pre = []"
  by (simp add: skip_space_def)

lemma parse_value_Str:
  assumes "skip_space t = CHR 0x22 # r" and "parse_chars r = Some (s, r')"
  shows "parse_value (Suc n) t = Some (Str s, r')"
  using assms by simp

lemma parse_value_Num:
  assumes "skip_space t = c # r" and "c \<noteq> CHR 0x22" and "c \<noteq> CHR ''[''" and "c \<noteq> CHR ''{''"
    and "parse_int (c # r) = Some (i, r')"
  shows "parse_value (Suc n) t = Some (Num i, r')"
  using assms by simp

lemma parse_value_Arr_empty:
  assumes "skip_space t = CHR ''['' # r" and "skip_space r = CHR '']'' # r'"
  shows "parse_value (Suc n) t = Some (Arr [], r')"
  using assms by simp

lemma parse_value_Arr:
  assumes "skip_space t = CHR ''['' # r" and "skip_space r = d # r'" and "d \<noteq> CHR '']''"
    and "parse_elements n r = Some (xs, r'')"
  shows "parse_value (Suc n) t = Some (Arr xs, r'')"
  using assms by simp

lemma parse_value_Obj_empty:
  assumes "skip_space t = CHR ''{'' # r" and "skip_space r = CHR ''}'' # r'"
  shows "parse_value (Suc n) t = Some (Obj [], r')"
  using assms by simp

lemma parse_value_Obj:
  assumes "skip_space t = CHR ''{'' # r" and "skip_space r = d # r'" and "d \<noteq> CHR ''}''"
    and "parse_members n r = Some (ps, r'')"
  shows "parse_value (Suc n) t = Some (Obj ps, r'')"
  using assms by simp

lemma parse_elements_last:
  assumes "parse_value n t = Some (x, r)" and "skip_space r = CHR '']'' # r'"
  shows "parse_elements (Suc n) t = Some ([x], r')"
  using assms by simp

lemma parse_elements_more:
  assumes "parse_value n t = Some (x, r)" and "skip_space r = CHR '','' # r'"
    and "parse_elements n r' = Some (xs, r'')"
  shows "parse_elements (Suc n) t = Some (x # xs, r'')"
  using assms by simp

lemma parse_members_last:
  assumes "skip_space t = CHR 0x22 # r" and "parse_chars r = Some (k, r1)"
    and "skip_space r1 = CHR '':'' # r2" and "parse_value n r2 = Some (v, r3)"
    and "skip_space r3 = CHR ''}'' # r4"
  shows "parse_members (Suc n) t = Some ([(k, v)], r4)"
  using assms by simp

lemma parse_members_more:
  assumes "skip_space t = CHR 0x22 # r" and "parse_chars r = Some (k, r1)"
    and "skip_space r1 = CHR '':'' # r2" and "parse_value n r2 = Some (v, r3)"
    and "skip_space r3 = CHR '','' # r4" and "parse_members n r4 = Some (ps, r5)"
  shows "parse_members (Suc n) t = Some ((k, v) # ps, r5)"
  using assms by simp

declare parse_value.simps [simp del] parse_elements.simps [simp del] parse_members.simps [simp del]

lemma json_space_facts:
  "is_json_space (CHR 0x20)" "is_json_space (CHR 0x0A)"
  "\<not> is_json_space (CHR 0x22)" "\<not> is_json_space (CHR ''['')" "\<not> is_json_space (CHR '']'')"
  "\<not> is_json_space (CHR ''{'')" "\<not> is_json_space (CHR ''}'')" "\<not> is_json_space (CHR '','')"
  "\<not> is_json_space (CHR '':'')" "\<not> is_json_space (CHR ''-'')"
  by (simp_all add: is_json_space_def)

lemma is_digit_facts:
  "is_digit c \<Longrightarrow> \<not> is_json_space c"
  "is_digit c \<Longrightarrow> c \<noteq> CHR 0x22"
  "is_digit c \<Longrightarrow> c \<noteq> CHR ''[''"
  "is_digit c \<Longrightarrow> c \<noteq> CHR ''{''"
  "\<not> is_digit (CHR '','')" "\<not> is_digit (CHR '']'')" "\<not> is_digit (CHR ''}'')"
  by (auto simp: is_digit_def is_json_space_def)

lemma number_toString_first:
  "\<exists>c cs. number_toString i = c # cs \<and> \<not> is_json_space c
      \<and> c \<noteq> CHR 0x22 \<and> c \<noteq> CHR ''['' \<and> c \<noteq> CHR ''{''"
proof (cases "i < 0")
  case True
  then show ?thesis by (simp add: number_toString_def json_space_facts)
next
  case False
  obtain c cs where "number_toString_nat (nat i) = c # cs" and "is_digit c"
    using number_toString_nat_first by blast
  with False show ?thesis by (simp add: number_toString_def is_digit_facts)
qed

lemma spaces_then_not_digit:
  assumes "\<forall>c \<in> set trail. is_json_space c" and "\<not> is_digit d"
  shows "\<not> is_digit (hd (trail @ d # rest))"
  using assms by (cases trail) (auto dest: is_digit_facts(1))

lemma replicate_spaces: "\<forall>c \<in> set (replicate n (CHR 0x20)). is_json_space c"
  by (simp add: json_space_facts)

lemma stringify_value_first:
  "\<exists>c cs. stringify_value gap ind v = c # cs \<and> \<not> is_json_space c
      \<and> c \<noteq> CHR '']'' \<and> c \<noteq> CHR ''}''"
proof (cases v)
  case (Str s)
  then show ?thesis by (simp add: JSON_quote_def json_space_facts)
next
  case (Num i)
  obtain c cs where f: "number_toString i = c # cs" and "\<not> is_json_space c"
    and d: "c = CHR ''-'' \<or> is_digit c"
  proof (cases "i < 0")
    case True
    then have "number_toString i = CHR ''-'' # number_toString_nat (nat (- i))"
      by (simp add: number_toString_def)
    then show ?thesis using that by (simp add: json_space_facts)
  next
    case False
    obtain c cs where "number_toString_nat (nat i) = c # cs" and "is_digit c"
      using number_toString_nat_first by blast
    with False show ?thesis using that by (simp add: number_toString_def is_digit_facts)
  qed
  from d have "c \<noteq> CHR '']'' \<and> c \<noteq> CHR ''}''" using is_digit_facts(6,7) by auto
  with Num f \<open>\<not> is_json_space c\<close> show ?thesis by simp
next
  case (Obj ps)
  then show ?thesis by (cases ps) (simp_all add: json_space_facts)
next
  case (Arr xs)
  then show ?thesis by (cases xs) (simp_all add: json_space_facts)
qed

lemma JSON_roundtrip:
  fixes gap :: nat
  shows "0 < gap \<Longrightarrow> length (stringify_value gap ind v) < fuel
           \<Longrightarrow> \<forall>c \<in> set pre. is_json_space c
           \<Longrightarrow> rest = [] \<or> \<not> is_digit (hd rest)
           \<Longrightarrow> parse_value fuel (pre @ stringify_value gap ind v @ rest) = Some (v, rest)"
    and "0 < gap \<Longrightarrow> 0 < ind \<Longrightarrow> xs \<noteq> []
           \<Longrightarrow> length (join_js (stringify_elements gap ind xs) ('','' @ [CHR 0x0A])) < fuel
           \<Longrightarrow> \<forall>c \<in> set pre. is_json_space c
           \<Longrightarrow> \<forall>c \<in> set trail. is_json_space c
           \<Longrightarrow> parse_elements fuel
                 (pre @ join_js (stringify_elements gap ind xs) ('','' @ [CHR 0x0A])
                      @ trail @ CHR '']'' # rest)
               = Some (xs, rest)"
    and "0 < gap \<Longrightarrow> 0 < ind \<Longrightarrow> ps \<noteq> []
           \<Longrightarrow> length (join_js (stringify_properties gap ind ps) ('','' @ [CHR 0x0A])) < fuel
           \<Longrightarrow> \<forall>c \<in> set pre. is_json_space c
           \<Longrightarrow> \<forall>c \<in> set trail. is_json_space c
           \<Longrightarrow> parse_members fuel
                 (pre @ join_js (stringify_properties gap ind ps) ('','' @ [CHR 0x0A])
                      @ trail @ CHR ''}'' # rest)
               = Some (ps, rest)"
proof (induction gap ind v and gap ind xs and gap ind ps
       arbitrary: fuel pre rest and fuel pre trail rest and fuel pre trail rest
       rule: stringify_value_stringify_elements_stringify_properties.induct)
  case (1 gap ind s)
  from 1(2) obtain n where fuel: "fuel = Suc n" by (cases fuel) auto
  have skip: "skip_space (pre @ stringify_value gap ind (Str s) @ rest)
                = CHR 0x22 # (concat (map JSON_escape s) @ CHR 0x22 # rest)"
    using skip_space_prefix [OF 1(3) json_space_facts(3)] by (simp add: JSON_quote_def)
  show ?case
    unfolding fuel using skip parse_chars_quote by (rule parse_value_Str)
next
  case (2 gap ind i)
  from 2(2) obtain n where fuel: "fuel = Suc n" by (cases fuel) auto
  obtain c cs where first: "number_toString i = c # cs" and c: "\<not> is_json_space c"
    "c \<noteq> CHR 0x22" "c \<noteq> CHR ''[''" "c \<noteq> CHR ''{''"
    using number_toString_first by blast
  have skip: "skip_space (pre @ stringify_value gap ind (Num i) @ rest) = c # (cs @ rest)"
    using skip_space_prefix [OF 2(3) c(1)] by (simp add: first)
  have "parse_int (c # (cs @ rest)) = Some (i, rest)"
    using parse_int_toString [OF 2(4), of i] by (simp add: first)
  with skip c show ?case unfolding fuel by (intro parse_value_Num)
next
  case (3 gap ind xs)
  from 3(3) obtain n where fuel: "fuel = Suc n" by (cases fuel) auto
  show ?case
  proof (cases "xs = []")
    case True
    have skip: "skip_space (pre @ stringify_value gap ind (Arr xs) @ rest)
                  = CHR ''['' # (CHR '']'' # rest)"
      using skip_space_prefix [OF 3(4) json_space_facts(4)] True by simp
    have inner: "skip_space (CHR '']'' # rest) = CHR '']'' # rest"
      using skip_space_prefix [of "[]" "CHR '']''" rest] by (simp add: json_space_facts)
    show ?thesis
      unfolding fuel using skip inner True by (simp add: parse_value_Arr_empty)
  next
    case False
    define J where "J = join_js (stringify_elements gap (ind + gap) xs) ('','' @ [CHR 0x0A])"
    define trail where "trail = CHR 0x0A # replicate ind (CHR 0x20)"
    have shape: "stringify_value gap ind (Arr xs) = CHR ''['' # CHR 0x0A # J @ trail @ [CHR '']'']"
      using False by (simp add: J_def trail_def)
    have skip: "skip_space (pre @ stringify_value gap ind (Arr xs) @ rest)
                  = CHR ''['' # ([CHR 0x0A] @ J @ trail @ CHR '']'' # rest)"
      unfolding shape using skip_space_prefix [OF 3(4) json_space_facts(4)] by simp
    have trail_sp: "\<forall>c \<in> set trail. is_json_space c"
      by (auto simp: trail_def json_space_facts)
    have nl_sp: "\<forall>c \<in> set [CHR 0x0A]. is_json_space c"
      by (simp add: json_space_facts)
    have len: "length J < n" using 3(3) unfolding fuel shape by simp
    have elems: "parse_elements n ([CHR 0x0A] @ J @ trail @ CHR '']'' # rest) = Some (xs, rest)"
      unfolding J_def
      using 3(1) [OF False 3(2) _ False _ nl_sp trail_sp, of n rest] 3(2) len
      by (simp add: J_def)
    obtain x xs' where xs: "xs = x # xs'" using False by (cases xs) auto
    obtain c cs where first: "stringify_value gap (ind + gap) x = c # cs"
      and c: "\<not> is_json_space c" "c \<noteq> CHR '']''"
      using stringify_value_first by blast
    have "\<exists>t. J = replicate (ind + gap) (CHR 0x20) @ c # t"
      unfolding J_def xs using first by (cases xs') simp_all
    then obtain t where J: "J = replicate (ind + gap) (CHR 0x20) @ c # t" by blast
    have "skip_space (([CHR 0x0A] @ replicate (ind + gap) (CHR 0x20)) @ c # (t @ trail @ CHR '']'' # rest))
            = c # (t @ trail @ CHR '']'' # rest)"
      using c(1) by (intro skip_space_prefix) (auto simp: json_space_facts)
    then have inner: "skip_space ([CHR 0x0A] @ J @ trail @ CHR '']'' # rest)
                        = c # (t @ trail @ CHR '']'' # rest)"
      by (simp add: J)
    show ?thesis
      unfolding fuel using skip inner c(2) elems by (rule parse_value_Arr)
  qed
next
  case (4 gap ind ps)
  from 4(3) obtain n where fuel: "fuel = Suc n" by (cases fuel) auto
  show ?case
  proof (cases "ps = []")
    case True
    have skip: "skip_space (pre @ stringify_value gap ind (Obj ps) @ rest)
                  = CHR ''{'' # (CHR ''}'' # rest)"
      using skip_space_prefix [OF 4(4) json_space_facts(6)] True by simp
    have inner: "skip_space (CHR ''}'' # rest) = CHR ''}'' # rest"
      using skip_space_prefix [of "[]" "CHR ''}''" rest] by (simp add: json_space_facts)
    show ?thesis
      unfolding fuel using skip inner True by (simp add: parse_value_Obj_empty)
  next
    case False
    define J where "J = join_js (stringify_properties gap (ind + gap) ps) ('','' @ [CHR 0x0A])"
    define trail where "trail = CHR 0x0A # replicate ind (CHR 0x20)"
    have shape: "stringify_value gap ind (Obj ps) = CHR ''{'' # CHR 0x0A # J @ trail @ [CHR ''}'']"
      using False by (simp add: J_def trail_def)
    have skip: "skip_space (pre @ stringify_value gap ind (Obj ps) @ rest)
                  = CHR ''{'' # ([CHR 0x0A] @ J @ trail @ CHR ''}'' # rest)"
      unfolding shape using skip_space_prefix [OF 4(4) json_space_facts(6)] by simp
    have trail_sp: "\<forall>c \<in> set trail. is_json_space c"
      by (auto simp: trail_def json_space_facts)
    have nl_sp: "\<forall>c \<in> set [CHR 0x0A]. is_json_space c"
      by (simp add: json_space_facts)
    have len: "length J < n" using 4(3) unfolding fuel shape by simp
    have membs: "parse_members n ([CHR 0x0A] @ J @ trail @ CHR ''}'' # rest) = Some (ps, rest)"
      unfolding J_def
      using 4(1) [OF False 4(2) _ False _ nl_sp trail_sp, of n rest] 4(2) len
      by (simp add: J_def)
    obtain k v ps' where ps: "ps = (k, v) # ps'" using False by (cases ps) auto
    have "\<exists>t. J = replicate (ind + gap) (CHR 0x20) @ CHR 0x22 # t"
    proof (cases ps')
      case Nil
      then show ?thesis unfolding J_def ps by (simp add: JSON_quote_def)
    next
      case (Cons p ps'')
      then show ?thesis unfolding J_def ps by (cases p) (simp add: JSON_quote_def)
    qed
    then obtain t where J: "J = replicate (ind + gap) (CHR 0x20) @ CHR 0x22 # t" by blast
    have "skip_space (([CHR 0x0A] @ replicate (ind + gap) (CHR 0x20))
                        @ CHR 0x22 # (t @ trail @ CHR ''}'' # rest))
            = CHR 0x22 # (t @ trail @ CHR ''}'' # rest)"
      by (intro skip_space_prefix) (auto simp: json_space_facts)
    then have inner: "skip_space ([CHR 0x0A] @ J @ trail @ CHR ''}'' # rest)
                        = CHR 0x22 # (t @ trail @ CHR ''}'' # rest)"
      by (simp add: J)
    have "CHR 0x22 \<noteq> CHR ''}''" by simp
    with skip inner show ?thesis
      unfolding fuel using membs by (rule parse_value_Obj)
  qed
next
  case (5 gap ind)
  then show ?case by simp
next
  case (6 gap ind x xs)
  from 6(6) obtain n where fuel: "fuel = Suc n" by (cases fuel) auto
  define indent where "indent = replicate ind (CHR 0x20)"
  have pre': "\<forall>c \<in> set (pre @ indent). is_json_space c"
    using 6(7) by (auto simp: indent_def json_space_facts)
  show ?case
  proof (cases xs)
    case Nil
    have shape: "join_js (stringify_elements gap ind (x # xs)) ('','' @ [CHR 0x0A])
                  = indent @ stringify_value gap ind x"
      by (simp add: Nil indent_def)
    have len: "length (stringify_value gap ind x) < n"
      using 6(6) 6(4) unfolding fuel shape by (simp add: indent_def)
    have ok: "trail @ CHR '']'' # rest = [] \<or> \<not> is_digit (hd (trail @ CHR '']'' # rest))"
      using spaces_then_not_digit [OF 6(8) is_digit_facts(6)] by simp
    have val: "parse_value n ((pre @ indent) @ stringify_value gap ind x @ (trail @ CHR '']'' # rest))
                 = Some (x, trail @ CHR '']'' # rest)"
      using 6(1) [OF 6(3) len pre' ok] .
    have skip: "skip_space (trail @ CHR '']'' # rest) = CHR '']'' # rest"
      using skip_space_prefix [OF 6(8) json_space_facts(5)] .
    have "parse_elements (Suc n) ((pre @ indent) @ stringify_value gap ind x @ (trail @ CHR '']'' # rest))
            = Some ([x], rest)"
      using val skip by (rule parse_elements_last)
    then show ?thesis unfolding fuel shape by (simp add: Nil)
  next
    case (Cons y ys)
    define J where "J = join_js (stringify_elements gap ind xs) ('','' @ [CHR 0x0A])"
    have shape: "join_js (stringify_elements gap ind (x # xs)) ('','' @ [CHR 0x0A])
                  = indent @ stringify_value gap ind x @ CHR '','' # CHR 0x0A # J"
      by (simp add: Cons indent_def J_def)
    have len: "length (stringify_value gap ind x) < n" and lenJ: "length J < n"
      using 6(6) unfolding fuel shape by simp_all
    have ok: "CHR '','' # CHR 0x0A # J @ trail @ CHR '']'' # rest = []
                \<or> \<not> is_digit (hd (CHR '','' # CHR 0x0A # J @ trail @ CHR '']'' # rest))"
      by (simp add: is_digit_facts)
    have val: "parse_value n ((pre @ indent) @ stringify_value gap ind x
                                @ (CHR '','' # CHR 0x0A # J @ trail @ CHR '']'' # rest))
                 = Some (x, CHR '','' # CHR 0x0A # J @ trail @ CHR '']'' # rest)"
      using 6(1) [OF 6(3) len pre' ok] .
    have skip: "skip_space (CHR '','' # CHR 0x0A # J @ trail @ CHR '']'' # rest)
                  = CHR '','' # ([CHR 0x0A] @ J @ trail @ CHR '']'' # rest)"
      using skip_space_prefix [of "[]" "CHR '',''"] by (simp add: json_space_facts)
    have nl_sp: "\<forall>c \<in> set [CHR 0x0A]. is_json_space c"
      by (simp add: json_space_facts)
    have xs_ne: "xs \<noteq> []" by (simp add: Cons)
    have more: "parse_elements n ([CHR 0x0A] @ J @ trail @ CHR '']'' # rest) = Some (xs, rest)"
      unfolding J_def
      using 6(2) [OF 6(3) 6(4) xs_ne _ nl_sp 6(8), of n rest] lenJ by (simp add: J_def)
    have "parse_elements (Suc n) ((pre @ indent) @ stringify_value gap ind x
                                @ (CHR '','' # CHR 0x0A # J @ trail @ CHR '']'' # rest))
            = Some (x # xs, rest)"
      using val skip more by (rule parse_elements_more)
    then show ?thesis unfolding fuel shape by simp
  qed
next
  case (7 gap ind)
  then show ?case by simp
next
  case (8 gap ind k v ps)
  from 8(6) obtain n where fuel: "fuel = Suc n" by (cases fuel) auto
  define indent where "indent = replicate ind (CHR 0x20)"
  have pre': "\<forall>c \<in> set (pre @ indent). is_json_space c"
    using 8(7) by (auto simp: indent_def json_space_facts)
  define member where "member = concat (map JSON_escape k) @ CHR 0x22 # CHR '':'' # CHR 0x20 # stringify_value gap ind v"
  have sp1: "\<forall>c \<in> set [CHR 0x20]. is_json_space c" by (simp add: json_space_facts)
  have colon: "skip_space (CHR '':'' # t) = CHR '':'' # t" for t
    using skip_space_prefix [of "[]" "CHR '':''" t] by (simp add: json_space_facts)
  show ?case
  proof (cases ps)
    case Nil
    have shape: "join_js (stringify_properties gap ind ((k, v) # ps)) ('','' @ [CHR 0x0A])
                  = indent @ CHR 0x22 # member"
      by (simp add: Nil indent_def member_def JSON_quote_def)
    have len: "length (stringify_value gap ind v) < n"
      using 8(6) unfolding fuel shape by (simp add: member_def)
    have ok: "trail @ CHR ''}'' # rest = [] \<or> \<not> is_digit (hd (trail @ CHR ''}'' # rest))"
      using spaces_then_not_digit [OF 8(8) is_digit_facts(7)] by simp
    have val: "parse_value n ([CHR 0x20] @ stringify_value gap ind v @ (trail @ CHR ''}'' # rest))
                 = Some (v, trail @ CHR ''}'' # rest)"
      using 8(1) [OF 8(3) len sp1 ok] .
    have s0: "skip_space ((pre @ indent) @ CHR 0x22 # (member @ trail @ CHR ''}'' # rest))
                = CHR 0x22 # (member @ trail @ CHR ''}'' # rest)"
      using skip_space_prefix [OF pre' json_space_facts(3)] .
    have key: "parse_chars (member @ trail @ CHR ''}'' # rest)
                 = Some (k, CHR '':'' # ([CHR 0x20] @ stringify_value gap ind v @ (trail @ CHR ''}'' # rest)))"
      using parse_chars_quote [of k] by (simp add: member_def)
    have skip: "skip_space (trail @ CHR ''}'' # rest) = CHR ''}'' # rest"
      using skip_space_prefix [OF 8(8) json_space_facts(7)] .
    have "parse_members (Suc n) ((pre @ indent) @ CHR 0x22 # (member @ trail @ CHR ''}'' # rest))
            = Some ([(k, v)], rest)"
      using s0 key colon val skip by (rule parse_members_last)
    then show ?thesis unfolding fuel shape by (simp add: Nil)
  next
    case (Cons p ps')
    define J where "J = join_js (stringify_properties gap ind ps) ('','' @ [CHR 0x0A])"
    have shape: "join_js (stringify_properties gap ind ((k, v) # ps)) ('','' @ [CHR 0x0A])
                  = indent @ CHR 0x22 # member @ CHR '','' # CHR 0x0A # J"
      by (cases p) (simp add: Cons indent_def member_def JSON_quote_def J_def)
    have len: "length (stringify_value gap ind v) < n" and lenJ: "length J < n"
      using 8(6) unfolding fuel shape by (simp_all add: member_def)
    have ok: "CHR '','' # CHR 0x0A # J @ trail @ CHR ''}'' # rest = []
                \<or> \<not> is_digit (hd (CHR '','' # CHR 0x0A # J @ trail @ CHR ''}'' # rest))"
      by (simp add: is_digit_facts)
    have val: "parse_value n ([CHR 0x20] @ stringify_value gap ind v
                                @ (CHR '','' # CHR 0x0A # J @ trail @ CHR ''}'' # rest))
                 = Some (v, CHR '','' # CHR 0x0A # J @ trail @ CHR ''}'' # rest)"
      using 8(1) [OF 8(3) len sp1 ok] .
    have s0: "skip_space ((pre @ indent) @ CHR 0x22
                 # (member @ CHR '','' # CHR 0x0A # J @ trail @ CHR ''}'' # rest))
                = CHR 0x22 # (member @ CHR '','' # CHR 0x0A # J @ trail @ CHR ''}'' # rest)"
      using skip_space_prefix [OF pre' json_space_facts(3)] .
    have key: "parse_chars (member @ CHR '','' # CHR 0x0A # J @ trail @ CHR ''}'' # rest)
                 = Some (k, CHR '':'' # ([CHR 0x20] @ stringify_value gap ind v
                            @ (CHR '','' # CHR 0x0A # J @ trail @ CHR ''}'' # rest)))"
      using parse_chars_quote [of k] by (simp add: member_def)
    have skip: "skip_space (CHR '','' # CHR 0x0A # J @ trail @ CHR ''}'' # rest)
                  = CHR '','' # ([CHR 0x0A] @ J @ trail @ CHR ''}'' # rest)"
      using skip_space_prefix [of "[]" "CHR '',''"] by (simp add: json_space_facts)
    have nl_sp: "\<forall>c \<in> set [CHR 0x0A]. is_json_space c"
      by (simp add: json_space_facts)
    have ps_ne: "ps \<noteq> []" by (simp add: Cons)
    have more: "parse_members n ([CHR 0x0A] @ J @ trail @ CHR ''}'' # rest) = Some (ps, rest)"
      unfolding J_def
      using 8(2) [OF 8(3) 8(4) ps_ne _ nl_sp 8(8), of n rest] lenJ by (simp add: J_def)
    have "parse_members (Suc n) ((pre @ indent) @ CHR 0x22
                 # (member @ CHR '','' # CHR 0x0A # J @ trail @ CHR ''}'' # rest))
            = Some ((k, v) # ps, rest)"
      using s0 key colon val skip more by (rule parse_members_more)
    then show ?thesis unfolding fuel shape by simp
  qed
qed

lemma JSON_parse_stringify:
  assumes "0 < gap"
  shows "JSON_parse (JSON_stringify v gap) = Some v"
proof -
  have "parse_value (Suc (length (stringify_value gap 0 v))) ([] @ stringify_value gap 0 v @ [])
          = Some (v, [])"
    using assms by (intro JSON_roundtrip(1)) simp_all
  then show ?thesis
    by (simp add: JSON_parse_def JSON_stringify_def skip_space_def)
qed

lemma export_sample_text:
  "JSON_stringify (Arr [parseCnabQSegmentLine q_line]) 2 =
     ''['' @ [CHR 0x0A]
     @ ''  {'' @ [CHR 0x0A]
     @ ''    '' @ [CHR 0x22] @ ''nome'' @ [CHR 0x22] @ '': {'' @ [CHR 0x0A]
     @ ''      '' @ [CHR 0x22] @ ''value'' @ [CHR 0x22] @ '': '' @ [CHR 0x22] @ [CHR 0x22] @ '','' @ [CHR 0x0A]
     @ ''      '' @ [CHR 0x22] @ ''from'' @ [CHR 0x22] @ '': 33,'' @ [CHR 0x0A]
     @ ''      '' @ [CHR 0x22] @ ''to'' @ [CHR 0x22] @ '': 73'' @ [CHR 0x0A]
     @ ''    },'' @ [CHR 0x0A]
     @ ''    '' @ [CHR 0x22] @ ''endereco'' @ [CHR 0x22] @ '': {'' @ [CHR 0x0A]
     @ ''      '' @ [CHR 0x22] @ ''value'' @ [CHR 0x22] @ '': '' @ [CHR 0x22] @ [CHR 0x22] @ '','' @ [CHR 0x0A]
     @ ''      '' @ [CHR 0x22] @ ''from'' @ [CHR 0x22] @ '': 73,'' @ [CHR 0x0A]
     @ ''      '' @ [CHR 0x22] @ ''to'' @ [CHR 0x22] @ '': 113'' @ [CHR 0x0A]
     @ ''    },'' @ [CHR 0x0A]
     @ ''    '' @ [CHR 0x22] @ ''bairro'' @ [CHR 0x22] @ '': {'' @ [CHR 0x0A]
     @ ''      '' @ [CHR 0x22] @ ''value'' @ [CHR 0x22] @ '': '' @ [CHR 0x22] @ [CHR 0x22] @ '','' @ [CHR 0x0A]
     @ ''      '' @ [CHR 0x22] @ ''from'' @ [CHR 0x22] @ '': 113,'' @ [CHR 0x0A]
     @ ''      '' @ [CHR 0x22] @ ''to'' @ [CHR 0x22] @ '': 128'' @ [CHR 0x0A]
     @ ''    },'' @ [CHR 0x0A]
     @ ''    '' @ [CHR 0x22] @ ''cep'' @ [CHR 0x22] @ '': {'' @ [CHR 0x0A]
     @ ''      '' @ [CHR 0x22] @ ''value'' @ [CHR 0x22] @ '': '' @ [CHR 0x22] @ [CHR 0x22] @ '','' @ [CHR 0x0A]
     @ ''      '' @ [CHR 0x22] @ ''from'' @ [CHR 0x22] @ '': 128,'' @ [CHR 0x0A]
     @ ''      '' @ [CHR 0x22] @ ''to'' @ [CHR 0x22] @ '': 136'' @ [CHR 0x0A]
     @ ''    },'' @ [CHR 0x0A]
     @ ''    '' @ [CHR 0x22] @ ''cidade'' @ [CHR 0x22] @ '': {'' @ [CHR 0x0A]
     @ ''      '' @ [CHR 0x22] @ ''value'' @ [CHR 0x22] @ '': '' @ [CHR 0x22] @ [CHR 0x22] @ '','' @ [CHR 0x0A]
     @ ''      '' @ [CHR 0x22] @ ''from'' @ [CHR 0x22] @ '': 136,'' @ [CHR 0x0A]
     @ ''      '' @ [CHR 0x22] @ ''to'' @ [CHR 0x22] @ '': 151'' @ [CHR 0x0A]
     @ ''    },'' @ [CHR 0x0A]
     @ ''    '' @ [CHR 0x22] @ ''estado'' @ [CHR 0x22] @ '': {'' @ [CHR 0x0A]
     @ ''      '' @ [CHR 0x22] @ ''value'' @ [CHR 0x22] @ '': '' @ [CHR 0x22] @ [CHR 0x22] @ '','' @ [CHR 0x0A]
     @ ''      '' @ [CHR 0x22] @ ''from'' @ [CHR 0x22] @ '': 151,'' @ [CHR 0x0A]
     @ ''      '' @ [CHR 0x22] @ ''to'' @ [CHR 0x22] @ '': 154'' @ [CHR 0x0A]
     @ ''    }'' @ [CHR 0x0A]
     @ ''  }'' @ [CHR 0x0A]
     @ '']''"
  by code_simp

section \<open>Properties of the offset table\<close>

text \<open>
  Claim C10. The six field ranges of the Q segment are, in table order, 33--73, 73--113,
  113--128, 128--136, 136--151 and 151--154: each range ends where the next one starts,
  so together they tile the interval from 33 to 154 without gap; every range is
  non-empty and any earlier range ends at or before the start of any later one, so no
  two overlap; and the discriminator index 13 lies in none of them.
\<close>

theorem CNAB_POSITIONS_tile:
  "map (\<lambda>p. (START p, END p))
       [COMPANY_NAME CNAB_POSITIONS, ADDRESS CNAB_POSITIONS, DISTRICT CNAB_POSITIONS,
        ZIP CNAB_POSITIONS, CITY CNAB_POSITIONS, STATE CNAB_POSITIONS]
     = [(33, 73), (73, 113), (113, 128), (128, 136), (136, 151), (151, 154)]
   \<and> END (COMPANY_NAME CNAB_POSITIONS) = START (ADDRESS CNAB_POSITIONS)
   \<and> END (ADDRESS CNAB_POSITIONS) = START (DISTRICT CNAB_POSITIONS)
   \<and> END (DISTRICT CNAB_POSITIONS) = START (ZIP CNAB_POSITIONS)
   \<and> END (ZIP CNAB_POSITIONS) = START (CITY CNAB_POSITIONS)
   \<and> END (CITY CNAB_POSITIONS) = START (STATE CNAB_POSITIONS)
   \<and> list_all (\<lambda>p. START p < END p)
        [COMPANY_NAME CNAB_POSITIONS, ADDRESS CNAB_POSITIONS, DISTRICT CNAB_POSITIONS,
         ZIP CNAB_POSITIONS, CITY CNAB_POSITIONS, STATE CNAB_POSITIONS]
   \<and> sorted_wrt (\<lambda>p q. END p \<le> START q)
        [COMPANY_NAME CNAB_POSITIONS, ADDRESS CNAB_POSITIONS, DISTRICT CNAB_POSITIONS,
         ZIP CNAB_POSITIONS, CITY CNAB_POSITIONS, STATE CNAB_POSITIONS]
   \<and> list_all (\<lambda>p. SEGMENT_INDEX CNAB_POSITIONS < START p \<or> END p \<le> SEGMENT_INDEX CNAB_POSITIONS)
        [COMPANY_NAME CNAB_POSITIONS, ADDRESS CNAB_POSITIONS, DISTRICT CNAB_POSITIONS,
         ZIP CNAB_POSITIONS, CITY CNAB_POSITIONS, STATE CNAB_POSITIONS]"
  by (simp add: CNAB_POSITIONS_def)

section \<open>Properties of field extraction\<close>

text \<open>
  Claim C1. For every line, \<open>parseCnabQSegmentLine\<close> returns exactly six fields, in the
  order nome, endereco, bairro, cep, cidade, estado, each with the range of the offset
  table (33--73, 73--113, 113--128, 128--136, 136--151, 151--154). The values of nome,
  endereco, bairro and cidade are the slice of the line trimmed of surrounding white
  space; the values of cep and estado are the slice itself. A slice from \<open>a\<close> to \<open>b\<close> is
  the at most \<open>b - a\<close> characters of the line from index \<open>a\<close> on. Trimmed means, for
  every string: the string is a run of white-space characters, the trimmed string and a
  run of white-space characters, and the trimmed string, unless empty, neither starts
  nor ends with a white-space character; the white-space characters are TAB, LF, VT, FF,
  CR, SPACE and NO-BREAK SPACE.
\<close>

theorem parseCnabQSegmentLine_fields:
  "parseCnabQSegmentLine line =
     Obj [
       (''nome'', Obj [(''value'', Str (trim (take 40 (drop 33 line)))),
                       (''from'', Num 33), (''to'', Num 73)]),
       (''endereco'', Obj [(''value'', Str (trim (take 40 (drop 73 line)))),
                           (''from'', Num 73), (''to'', Num 113)]),
       (''bairro'', Obj [(''value'', Str (trim (take 15 (drop 113 line)))),
                         (''from'', Num 113), (''to'', Num 128)]),
       (''cep'', Obj [(''value'', Str (take 8 (drop 128 line))),
                      (''from'', Num 128), (''to'', Num 136)]),
       (''cidade'', Obj [(''value'', Str (trim (take 15 (drop 136 line)))),
                         (''from'', Num 136), (''to'', Num 151)]),
       (''estado'', Obj [(''value'', Str (take 3 (drop 151 line))),
                         (''from'', Num 151), (''to'', Num 154)])]
   \<and> (\<forall>s. \<exists>a b.
          s = a @ trim s @ b
          \<and> set a \<subseteq> {CHR 0x09, CHR 0x0A, CHR 0x0B, CHR 0x0C, CHR 0x0D, CHR 0x20, CHR 0xA0}
          \<and> set b \<subseteq> {CHR 0x09, CHR 0x0A, CHR 0x0B, CHR 0x0C, CHR 0x0D, CHR 0x20, CHR 0xA0}
          \<and> (trim s = [] \<or>
               hd (trim s) \<notin> {CHR 0x09, CHR 0x0A, CHR 0x0B, CHR 0x0C, CHR 0x0D, CHR 0x20, CHR 0xA0}
               \<and> last (trim s) \<notin> {CHR 0x09, CHR 0x0A, CHR 0x0B, CHR 0x0C, CHR 0x0D, CHR 0x20, CHR 0xA0}))"
proof -
  have "parseCnabQSegmentLine line =
     Obj [
       (''nome'', Obj [(''value'', Str (trim (take 40 (drop 33 line)))),
                       (''from'', Num 33), (''to'', Num 73)]),
       (''endereco'', Obj [(''value'', Str (trim (take 40 (drop 73 line)))),
                           (''from'', Num 73), (''to'', Num 113)]),
       (''bairro'', Obj [(''value'', Str (trim (take 15 (drop 113 line)))),
                         (''from'', Num 113), (''to'', Num 128)]),
       (''cep'', Obj [(''value'', Str (take 8 (drop 128 line))),
                      (''from'', Num 128), (''to'', Num 136)]),
       (''cidade'', Obj [(''value'', Str (trim (take 15 (drop 136 line)))),
                         (''from'', Num 136), (''to'', Num 151)]),
       (''estado'', Obj [(''value'', Str (take 3 (drop 151 line))),
                         (''from'', Num 151), (''to'', Num 154)])]"
    by (simp add: parseCnabQSegmentLine_def CNAB_POSITIONS_def js_slice_nonneg)
  with trim_characterised show ?thesis by blast
qed

text \<open>
  For the sample Q line the six values are the company name, address, district, postal
  code, city and state, the state with its trailing blank since it is not trimmed; the
  name field of the other sample line loses its two leading and its trailing blanks.
\<close>

theorem parseCnabQSegmentLine_fields_witness:
  "parseCnabQSegmentLine acme_line =
     Obj [
       (''nome'', Obj [(''value'', Str ''ACME CORP LTDA''), (''from'', Num 33), (''to'', Num 73)]),
       (''endereco'', Obj [(''value'', Str ''RUA DAS FLORES 100''),
                           (''from'', Num 73), (''to'', Num 113)]),
       (''bairro'', Obj [(''value'', Str ''CENTRO''), (''from'', Num 113), (''to'', Num 128)]),
       (''cep'', Obj [(''value'', Str ''01310100''), (''from'', Num 128), (''to'', Num 136)]),
       (''cidade'', Obj [(''value'', Str ''SAO PAULO''), (''from'', Num 136), (''to'', Num 151)]),
       (''estado'', Obj [(''value'', Str ''SP ''), (''from'', Num 151), (''to'', Num 154)])]
   \<and> take 40 (drop 33 acao_line)
       = ''  '' @ (''A'' @ [CHR 0xC7, CHR 0xC3] @ ''O LTDA'') @ replicate 29 CHR '' ''
   \<and> trim (take 40 (drop 33 acao_line)) = ''A'' @ [CHR 0xC7, CHR 0xC3] @ ''O LTDA''"
  using parseCnabQSegmentLine_fields [of acme_line] acme_line_parsed acao_line_field acao_line_name
  by simp

section \<open>Positional range lookup\<close>

text \<open>
  Claim C4, as amended. Positional Range Lookup reports only the first body line whose
  character at index 13 equals the segment type: whatever follows that line is not
  looked at. When \<open>from - 1 \<le> to\<close>, the report holds the substring of that line from
  \<open>from - 1\<close> to \<open>to\<close> (both positions clamped to the bounds of the line), and the line
  as three spans, the prefix up to \<open>from - 1\<close>, the highlighted substring and the suffix
  from \<open>to\<close> on, whose concatenation is the line.
\<close>

theorem searchSegmentPositions_first_match:
  assumes "\<forall>l \<in> set pre. \<not> (13 < length l \<and> [l ! 13] = segmentoType)"
    and "13 < length line \<and> [line ! 13] = segmentoType"
  shows
    "searchSegmentPositions (pre @ line # post) segmentoType from to arquivoPath s =
       s\<lparr>console := console s @
          [(Stdout, messageLog line segmentoType from to arquivoPath)]\<rparr>
     \<and> (from - 1 \<le> to \<longrightarrow>
         (let a = nat (min (max (from - 1) 0) (int (length line)));
              b = nat (min (max to 0) (int (length line)))
          in messageLog line segmentoType from to arquivoPath =
                [ Plain ([CHR 0x0A] @ ''----- Cnab linha ''), Plain segmentoType,
                  Plain ('' -----'' @ [CHR 0x0A, CHR 0x0A] @ ''posi'' @ [CHR 0xE7, CHR 0xE3] @ ''o from: ''),
                  InverseBgBlack (number_toString from),
                  Plain ([CHR 0x0A, CHR 0x0A] @ ''posi'' @ [CHR 0xE7, CHR 0xE3] @ ''o to: ''),
                  InverseBgBlack (number_toString to),
                  Plain ([CHR 0x0A, CHR 0x0A] @ ''item isolado: ''),
                  InverseBgBlack (take (b - a) (drop a line)),
                  Plain ([CHR 0x0A, CHR 0x0A] @ ''item dentro da linha ''), Plain segmentoType,
                  Plain ('': '' @ [CHR 0x0A] @ ''  ''),
                  Plain (take a line),
                  InverseBgBlack (take (b - a) (drop a line)),
                  Plain (drop b line),
                  Plain ([CHR 0x0A, CHR 0x0A] @ ''----- FIM ------'' @ [CHR 0x0A]) ]
              \<and> take a line @ take (b - a) (drop a line) @ drop b line = line))"
proof -
  have found: "find (\<lambda>l. 13 < length l \<and> [l ! 13] = segmentoType) (pre @ line # post) = Some line"
    using assms(1,2) by (intro find_first) auto
  have run: "searchSegmentPositions (pre @ line # post) segmentoType from to arquivoPath s =
               s\<lparr>console := console s @
                  [(Stdout, messageLog line segmentoType from to arquivoPath)]\<rparr>"
    by (simp add: searchSegmentPositions_unfold found log_def)
  have contents: "(let a = nat (min (max (from - 1) 0) (int (length line)));
              b = nat (min (max to 0) (int (length line)))
          in messageLog line segmentoType from to arquivoPath =
                [ Plain ([CHR 0x0A] @ ''----- Cnab linha ''), Plain segmentoType,
                  Plain ('' -----'' @ [CHR 0x0A, CHR 0x0A] @ ''posi'' @ [CHR 0xE7, CHR 0xE3] @ ''o from: ''),
                  InverseBgBlack (number_toString from),
                  Plain ([CHR 0x0A, CHR 0x0A] @ ''posi'' @ [CHR 0xE7, CHR 0xE3] @ ''o to: ''),
                  InverseBgBlack (number_toString to),
                  Plain ([CHR 0x0A, CHR 0x0A] @ ''item isolado: ''),
                  InverseBgBlack (take (b - a) (drop a line)),
                  Plain ([CHR 0x0A, CHR 0x0A] @ ''item dentro da linha ''), Plain segmentoType,
                  Plain ('': '' @ [CHR 0x0A] @ ''  ''),
                  Plain (take a line),
                  InverseBgBlack (take (b - a) (drop a line)),
                  Plain (drop b line),
                  Plain ([CHR 0x0A, CHR 0x0A] @ ''----- FIM ------'' @ [CHR 0x0A]) ]
              \<and> take a line @ take (b - a) (drop a line) @ drop b line = line)"
    if range: "from - 1 \<le> to"
  proof -
    define a where "a = nat (min (max (from - 1) 0) (int (length line)))"
    define b where "b = nat (min (max to 0) (int (length line)))"
    have ab: "a \<le> b" using range by (simp add: a_def b_def)
    have a: "clamp_index (length line) (from - 1) = a" by (simp add: clamp_index_def a_def)
    have b: "clamp_index (length line) to = b" by (simp add: clamp_index_def b_def)
    have mid: "substring line (from - 1) (Some to) = take (b - a) (drop a line)"
      using substring_ordered [OF range, of line] by (simp add: a b)
    have pre: "substring line 0 (Some (from - 1)) = take a line"
      by (simp add: substring_from_start a)
    have post: "substring line to None = drop b line"
      by (simp add: substring_to_end b)
    have glue: "take a line @ take (b - a) (drop a line) @ drop b line = line"
      using ab by (rule take_drop_glue)
    show ?thesis
      unfolding Let_def a_def [symmetric] b_def [symmetric]
      by (simp add: messageLog_def mid pre post glue)
  qed
  from run contents show ?thesis by blast
qed

theorem searchSegmentPositions_first_match_witness:
  "searchSegmentPositions [q_line, p_line, ''0123456789ABCPsecond''] ''P'' 3 5 None init_state =
     init_state\<lparr>console :=
        [(Stdout,
          [ Plain ([CHR 0x0A] @ ''----- Cnab linha ''), Plain ''P'',
            Plain ('' -----'' @ [CHR 0x0A, CHR 0x0A] @ ''posi'' @ [CHR 0xE7, CHR 0xE3] @ ''o from: ''),
            InverseBgBlack ''3'',
            Plain ([CHR 0x0A, CHR 0x0A] @ ''posi'' @ [CHR 0xE7, CHR 0xE3] @ ''o to: ''),
            InverseBgBlack ''5'',
            Plain ([CHR 0x0A, CHR 0x0A] @ ''item isolado: ''),
            InverseBgBlack ''234'',
            Plain ([CHR 0x0A, CHR 0x0A] @ ''item dentro da linha ''), Plain ''P'',
            Plain ('': '' @ [CHR 0x0A] @ ''  ''),
            Plain ''01'',
            InverseBgBlack ''234'',
            Plain ''56789ABCP'',
            Plain ([CHR 0x0A, CHR 0x0A] @ ''----- FIM ------'' @ [CHR 0x0A]) ])]\<rparr>
   \<and> ''01'' @ ''234'' @ ''56789ABCP'' = p_line"
  using searchSegmentPositions_first_match
          [of "[q_line]" "''P''" p_line "[''0123456789ABCPsecond'']" 3 5 None init_state]
  by (simp add: q_line_def p_line_def init_state_def number_toString_def number_toString_nat.simps char_of_digits)

text \<open>
  The claim as stated, without the condition \<open>from - 1 \<le> to\<close>, fails: \<open>substring\<close>
  swaps its two positions when the first exceeds the second. For \<open>from = 10\<close> and
  \<open>to = 5\<close> the three spans printed are the first nine characters, the characters at
  indices 5 to 8 and the characters from index 5 on, which do not make up the line.
\<close>

theorem searchSegmentPositions_spans_counterexample:
  "searchSegmentPositions [p_line] ''P'' 10 5 None init_state =
     init_state\<lparr>console :=
        [(Stdout,
          [ Plain ([CHR 0x0A] @ ''----- Cnab linha ''), Plain ''P'',
            Plain ('' -----'' @ [CHR 0x0A, CHR 0x0A] @ ''posi'' @ [CHR 0xE7, CHR 0xE3] @ ''o from: ''),
            InverseBgBlack ''10'',
            Plain ([CHR 0x0A, CHR 0x0A] @ ''posi'' @ [CHR 0xE7, CHR 0xE3] @ ''o to: ''),
            InverseBgBlack ''5'',
            Plain ([CHR 0x0A, CHR 0x0A] @ ''item isolado: ''),
            InverseBgBlack ''5678'',
            Plain ([CHR 0x0A, CHR 0x0A] @ ''item dentro da linha ''), Plain ''P'',
            Plain ('': '' @ [CHR 0x0A] @ ''  ''),
            Plain ''012345678'',
            InverseBgBlack ''5678'',
            Plain ''56789ABCP'',
            Plain ([CHR 0x0A, CHR 0x0A] @ ''----- FIM ------'' @ [CHR 0x0A]) ])]\<rparr>
   \<and> ''012345678'' @ ''5678'' @ ''56789ABCP'' \<noteq> p_line"
  by (simp add: searchSegmentPositions_def CNAB_POSITIONS_def index_str_def p_line_def
        init_state_def log_def messageLog_def substring_def clamp_index_def Let_def
        number_toString_def number_toString_nat.simps char_of_digits)




text \<open>
  Claim C9. Positional Range Lookup is deterministic: its report is a function of the
  body, the segment type, \<open>from\<close> and \<open>to\<close> alone. Whatever has been printed before
  and whatever the files are, the call appends that one report and changes nothing else,
  so a second call with the same arguments appends the same report again.
\<close>

theorem searchSegmentPositions_deterministic:
  "\<exists>report.
     (\<forall>s. searchSegmentPositions cnabBody segmentoType from to arquivoPath s =
            s\<lparr>console := console s @ [(Stdout, report)]\<rparr>)
     \<and> (\<forall>s. searchSegmentPositions cnabBody segmentoType from to arquivoPath
              (searchSegmentPositions cnabBody segmentoType from to arquivoPath s) =
            s\<lparr>console := console s @ [(Stdout, report), (Stdout, report)]\<rparr>)"
proof -
  define report where "report =
    (case find (\<lambda>line. 13 < length line \<and> [line ! 13] = segmentoType) cnabBody of
       None \<Rightarrow> [Yellow ''Nenhuma linha encontrada para o tipo de segmento informado.'']
     | Some register \<Rightarrow> messageLog register segmentoType from to arquivoPath)"
  have once: "searchSegmentPositions cnabBody segmentoType from to arquivoPath s =
                s\<lparr>console := console s @ [(Stdout, report)]\<rparr>" for s
    by (simp add: searchSegmentPositions_unfold log_def report_def split: option.split)
  have twice: "searchSegmentPositions cnabBody segmentoType from to arquivoPath
                 (searchSegmentPositions cnabBody segmentoType from to arquivoPath s) =
                s\<lparr>console := console s @ [(Stdout, report), (Stdout, report)]\<rparr>" for s
    by (simp add: once)
  from once twice show ?thesis by blast
qed

section \<open>The discriminator\<close>

text \<open>
  Claim C8. Positional Range Lookup, Segment-Type Listing, Company-Name Search and
  Export all select lines by the character at index 13, the one \<open>SEGMENT_INDEX\<close> of the
  table, whatever the segment type asked for: a line is selected only if it has more
  than 13 characters and the character at index 13 is the segment type (the letter Q for
  the name search and the export).
\<close>

theorem discriminator_index_fixed:
  "SEGMENT_INDEX CNAB_POSITIONS = 13
   \<and> searchSegmentPositions cnabBody segmentoType from to arquivoPath s =
       (case find (\<lambda>line. 13 < length line \<and> [line ! 13] = segmentoType) cnabBody of
          None \<Rightarrow> log [Yellow ''Nenhuma linha encontrada para o tipo de segmento informado.''] s
        | Some register \<Rightarrow> log (messageLog register segmentoType from to arquivoPath) s)
   \<and> searchBySegmentType cnabBody segmentoType s =
       (case filter (\<lambda>line. 13 < length line \<and> [line ! 13] = segmentoType) cnabBody of
          [] \<Rightarrow> log [Yellow ''Nenhum segmento encontrado.''] s
        | l # ls \<Rightarrow> log (segmentMessageLog (l # ls) segmentoType 14 14) s)
   \<and> searchByCompanyName cnabBody companyName arquivoPath s =
       (case filter (\<lambda>line. (13 < length line \<and> [line ! 13] = ''Q'')
                           \<and> (case toUpperCase companyName of
                                 None \<Rightarrow> False
                               | Some pattern \<Rightarrow> includes_js (take 40 (drop 33 line)) pattern))
                   cnabBody of
          [] \<Rightarrow> log [Yellow ''Nenhuma empresa encontrada com esse nome.''] s
        | l # ls \<Rightarrow>
            foldl (\<lambda>st line.
                     log (messageLog line ''Q'' 34
                            (33 + int (length (trim (take 40 (drop 33 line))))) arquivoPath) st)
                  s (l # ls))
   \<and> exportToJsonFile cnabArray jsonPath s =
       (case exportToJson
               (filter (\<lambda>line. 13 < length line \<and> [line ! 13] = ''Q'') cnabArray) jsonPath s of
          Inr (result, s') \<Rightarrow> log [Green result] s'
        | Inl e \<Rightarrow>
            console_error [Red ''Erro ao exportar para JSON:'', Plain '' '', Plain (message e)] s)"
proof -
  have idx: "(\<lambda>line. index_str line (SEGMENT_INDEX CNAB_POSITIONS) = Some t)
               = (\<lambda>line. 13 < length line \<and> [line ! 13] = t)" for t
    by (auto simp: CNAB_POSITIONS_def index_str_iff)
  have c0: "SEGMENT_INDEX CNAB_POSITIONS = 13" by (simp add: CNAB_POSITIONS_def)
  have c2: "searchBySegmentType cnabBody segmentoType s =
       (case filter (\<lambda>line. 13 < length line \<and> [line ! 13] = segmentoType) cnabBody of
          [] \<Rightarrow> log [Yellow ''Nenhum segmento encontrado.''] s
        | l # ls \<Rightarrow> log (segmentMessageLog (l # ls) segmentoType 14 14) s)"
    unfolding searchBySegmentType_def filter_index_str
    by (simp add: Let_def c0 split: list.split)
  have c3: "searchByCompanyName cnabBody companyName arquivoPath s =
       (case filter (\<lambda>line. (13 < length line \<and> [line ! 13] = ''Q'')
                           \<and> (case toUpperCase companyName of
                                 None \<Rightarrow> False
                               | Some pattern \<Rightarrow> includes_js (take 40 (drop 33 line)) pattern))
                   cnabBody of
          [] \<Rightarrow> log [Yellow ''Nenhuma empresa encontrada com esse nome.''] s
        | l # ls \<Rightarrow>
            foldl (\<lambda>st line.
                     log (messageLog line ''Q'' 34
                            (33 + int (length (trim (take 40 (drop 33 line))))) arquivoPath) st)
                  s (l # ls))"
    unfolding searchByCompanyName_def
    by (simp add: CNAB_POSITIONS_def index_str_iff js_slice_nonneg Let_def
          split: list.split cong: option.case_cong)
  have c4: "exportToJsonFile cnabArray jsonPath s =
       (case exportToJson
               (filter (\<lambda>line. 13 < length line \<and> [line ! 13] = ''Q'') cnabArray) jsonPath s of
          Inr (result, s') \<Rightarrow> log [Green result] s'
        | Inl e \<Rightarrow>
            console_error [Red ''Erro ao exportar para JSON:'', Plain '' '', Plain (message e)] s)"
    unfolding exportToJsonFile_def idx by (simp add: Let_def)
  from c0 searchSegmentPositions_unfold c2 c3 c4 show ?thesis by blast
qed

section \<open>Company-name search\<close>



section \<open>Properties of loading\<close>

text \<open>
  Claim C5. Loading a file that can be read splits its contents at every newline
  character and nowhere else, and leaves the lines as they are: no line contains a
  newline, and the lines joined by newlines are the contents again, so nothing is
  trimmed. The Document returned has \<open>full\<close> the whole sequence of lines, \<open>header\<close> its
  first two lines, \<open>body\<close> the lines from index 2 up to the length minus 2, and \<open>tail\<close>
  its last two lines.
\<close>

theorem readCnabFile_document:
  assumes "files s filePath = Some file"
  shows "\<exists>doc. readCnabFile filePath s = Inr doc
           \<and> full doc = split_js file CHR 0x0A
           \<and> join_js (full doc) [CHR 0x0A] = file
           \<and> list_all (\<lambda>line. CHR 0x0A \<notin> set line) (full doc)
           \<and> header doc = take 2 (full doc)
           \<and> body doc = drop 2 (take (length (full doc) - 2) (full doc))
           \<and> tail doc = drop (length (full doc) - 2) (full doc)"
proof -
  define doc where "doc =
    \<lparr> full = split_js file CHR 0x0A,
      header = take 2 (split_js file CHR 0x0A),
      body = drop 2 (take (length (split_js file CHR 0x0A) - 2) (split_js file CHR 0x0A)),
      tail = drop (length (split_js file CHR 0x0A) - 2) (split_js file CHR 0x0A) \<rparr>"
  have "readCnabFile filePath s = Inr doc"
    using assms
    by (simp add: readCnabFile_def readFile_def Let_def doc_def
          sliceArrayPosition_header sliceArrayPosition_body sliceArrayPosition_tail
        del: sliceArrayPosition.simps)
  moreover have "join_js (full doc) [CHR 0x0A] = file"
    by (simp add: doc_def join_split)
  moreover have "list_all (\<lambda>line. CHR 0x0A \<notin> set line) (full doc)"
    by (simp add: doc_def split_js_list_all)
  ultimately show ?thesis by (simp add: doc_def)
qed

theorem readCnabFile_document_witness:
  "files (init_state\<lparr>files := [''cnab.rem'' \<mapsto>
              ''h1'' @ [CHR 0x0A] @ ''h2 '' @ [CHR 0x0A] @ '' b1'' @ [CHR 0x0D, CHR 0x0A] @ ''b2''
              @ [CHR 0x0A] @ ''t1'' @ [CHR 0x0A] @ ''t2'']\<rparr>) ''cnab.rem''
     = Some (''h1'' @ [CHR 0x0A] @ ''h2 '' @ [CHR 0x0A] @ '' b1'' @ [CHR 0x0D, CHR 0x0A] @ ''b2''
              @ [CHR 0x0A] @ ''t1'' @ [CHR 0x0A] @ ''t2'')
   \<and> readCnabFile ''cnab.rem''
        (init_state\<lparr>files := [''cnab.rem'' \<mapsto>
              ''h1'' @ [CHR 0x0A] @ ''h2 '' @ [CHR 0x0A] @ '' b1'' @ [CHR 0x0D, CHR 0x0A] @ ''b2''
              @ [CHR 0x0A] @ ''t1'' @ [CHR 0x0A] @ ''t2'']\<rparr>)
     = Inr \<lparr> full = [''h1'', ''h2 '', '' b1'' @ [CHR 0x0D], ''b2'', ''t1'', ''t2''],
             header = [''h1'', ''h2 ''],
             body = ['' b1'' @ [CHR 0x0D], ''b2''],
             tail = [''t1'', ''t2''] \<rparr>"
  using readCnabFile_document
          [of "init_state\<lparr>files := [''cnab.rem'' \<mapsto>
              ''h1'' @ [CHR 0x0A] @ ''h2 '' @ [CHR 0x0A] @ '' b1'' @ [CHR 0x0D, CHR 0x0A] @ ''b2''
              @ [CHR 0x0A] @ ''t1'' @ [CHR 0x0A] @ ''t2'']\<rparr>" "''cnab.rem''"
              "''h1'' @ [CHR 0x0A] @ ''h2 '' @ [CHR 0x0A] @ '' b1'' @ [CHR 0x0D, CHR 0x0A] @ ''b2''
              @ [CHR 0x0A] @ ''t1'' @ [CHR 0x0A] @ ''t2''"]
  by (auto simp: init_state_def)

section \<open>Properties of the export\<close>

text \<open>
  Claim C6. Export is run on \<open>full\<close>, the whole sequence of lines of the document with
  its header and trailer lines, not on \<open>body\<close>. When the output file can be written, it
  keeps the lines whose character at index 13 is the letter Q, extracts the six fields
  nome, endereco, bairro, cep, cidade, estado of each of them, and writes the JSON text
  of the array of these entries, one entry for each Q line, in the order of the lines:
  reading the written text back gives exactly this array.
\<close>

theorem exportToJsonFile_entries:
  assumes "jsonPath \<notin> readonly s" and "jsonPath \<noteq> []"
  shows
    "processCommandArguments
       \<lparr> opt_from = None, opt_to = None, opt_segmento = None, opt_buscar = None,
         opt_nome = None, opt_json = Some jsonPath, opt_arquivo = arquivo \<rparr> cnabData s
       = exportToJsonFile (full cnabData) jsonPath s
     \<and> (\<exists>entries written.
          exportToJsonFile cnabArray jsonPath s =
            s\<lparr>files := (files s)(jsonPath \<mapsto> written),
               console := console s @
                  [(Stdout, [Green (''Arquivo JSON exportado para: '' @ jsonPath)])]\<rparr>
          \<and> written = JSON_stringify (Arr entries) 2
          \<and> JSON_parse written = Some (Arr entries)
          \<and> entries = map parseCnabQSegmentLine
                         (filter (\<lambda>line. 13 < length line \<and> line ! 13 = CHR ''Q'') cnabArray)
          \<and> length entries
              = length (filter (\<lambda>line. 13 < length line \<and> line ! 13 = CHR ''Q'') cnabArray)
          \<and> list_all (\<lambda>entry. \<exists>fields. entry = Obj fields
                                \<and> map fst fields
                                    = [''nome'', ''endereco'', ''bairro'', ''cep'', ''cidade'', ''estado''])
                      entries)"
proof -
  define entries where "entries = map parseCnabQSegmentLine
                         (filter (\<lambda>line. 13 < length line \<and> line ! 13 = CHR ''Q'') cnabArray)"
  define written where "written = JSON_stringify (Arr entries) 2"
  have run: "exportToJsonFile cnabArray jsonPath s =
            s\<lparr>files := (files s)(jsonPath \<mapsto> written),
               console := console s @
                  [(Stdout, [Green (''Arquivo JSON exportado para: '' @ jsonPath)])]\<rparr>"
    unfolding written_def entries_def using assms(1) by (rule exportToJsonFile_writable)
  have reread: "JSON_parse written = Some (Arr entries)"
    unfolding written_def by (rule JSON_parse_stringify) simp
  have len: "length entries
              = length (filter (\<lambda>line. 13 < length line \<and> line ! 13 = CHR ''Q'') cnabArray)"
    by (simp add: entries_def)
  have six: "list_all (\<lambda>entry. \<exists>fields. entry = Obj fields
                                \<and> map fst fields
                                    = [''nome'', ''endereco'', ''bairro'', ''cep'', ''cidade'', ''estado''])
                      entries"
    unfolding entries_def list_all_iff using parseCnabQSegmentLine_keys by auto
  from processCommandArguments_json_only [OF assms(2)] run written_def reread entries_def len six
  show ?thesis by blast
qed

text \<open>
  For the sample document of 15 lines, 5 with the discriminator Q (one of them in the
  header, one in the trailer) and 10 without, the text written reads back as an array of
  exactly 5 entries. For a P line followed by the short Q line the text written is one
  entry of six fields with empty values.
\<close>

theorem exportToJsonFile_entries_witness:
  "''out.json'' \<notin> readonly init_state \<and> ''out.json'' \<noteq> []
   \<and> length (full sample_document) = 15
   \<and> length (filter (\<lambda>line. 13 < length line \<and> line ! 13 = CHR ''Q'') (full sample_document)) = 5
   \<and> length (filter (\<lambda>line. \<not> (13 < length line \<and> line ! 13 = CHR ''Q'')) (full sample_document)) = 10
   \<and> (\<exists>written.
        processCommandArguments
          \<lparr> opt_from = None, opt_to = None, opt_segmento = None, opt_buscar = None,
            opt_nome = None, opt_json = Some ''out.json'', opt_arquivo = None \<rparr>
          sample_document init_state
        = init_state
            \<lparr>files := [''out.json'' \<mapsto> written],
             console := [(Stdout, [Green ''Arquivo JSON exportado para: out.json''])]\<rparr>
        \<and> JSON_parse written =
            Some (Arr [parseCnabQSegmentLine q_line, parseCnabQSegmentLine acme_line,
                       parseCnabQSegmentLine q_line, parseCnabQSegmentLine acme_line,
                       parseCnabQSegmentLine q_line]))
   \<and> exportToJsonFile [p_line, q_line] ''out.json'' init_state
       = init_state
           \<lparr>files := [''out.json'' \<mapsto>
     ''['' @ [CHR 0x0A]
     @ ''  {'' @ [CHR 0x0A]
     @ ''    '' @ [CHR 0x22] @ ''nome'' @ [CHR 0x22] @ '': {'' @ [CHR 0x0A]
     @ ''      '' @ [CHR 0x22] @ ''value'' @ [CHR 0x22] @ '': '' @ [CHR 0x22] @ [CHR 0x22] @ '','' @ [CHR 0x0A]
     @ ''      '' @ [CHR 0x22] @ ''from'' @ [CHR 0x22] @ '': 33,'' @ [CHR 0x0A]
     @ ''      '' @ [CHR 0x22] @ ''to'' @ [CHR 0x22] @ '': 73'' @ [CHR 0x0A]
     @ ''    },'' @ [CHR 0x0A]
     @ ''    '' @ [CHR 0x22] @ ''endereco'' @ [CHR 0x22] @ '': {'' @ [CHR 0x0A]
     @ ''      '' @ [CHR 0x22] @ ''value'' @ [CHR 0x22] @ '': '' @ [CHR 0x22] @ [CHR 0x22] @ '','' @ [CHR 0x0A]
     @ ''      '' @ [CHR 0x22] @ ''from'' @ [CHR 0x22] @ '': 73,'' @ [CHR 0x0A]
     @ ''      '' @ [CHR 0x22] @ ''to'' @ [CHR 0x22] @ '': 113'' @ [CHR 0x0A]
     @ ''    },'' @ [CHR 0x0A]
     @ ''    '' @ [CHR 0x22] @ ''bairro'' @ [CHR 0x22] @ '': {'' @ [CHR 0x0A]
     @ ''      '' @ [CHR 0x22] @ ''value'' @ [CHR 0x22] @ '': '' @ [CHR 0x22] @ [CHR 0x22] @ '','' @ [CHR 0x0A]
     @ ''      '' @ [CHR 0x22] @ ''from'' @ [CHR 0x22] @ '': 113,'' @ [CHR 0x0A]
     @ ''      '' @ [CHR 0x22] @ ''to'' @ [CHR 0x22] @ '': 128'' @ [CHR 0x0A]
     @ ''    },'' @ [CHR 0x0A]
     @ ''    '' @ [CHR 0x22] @ ''cep'' @ [CHR 0x22] @ '': {'' @ [CHR 0x0A]
     @ ''      '' @ [CHR 0x22] @ ''value'' @ [CHR 0x22] @ '': '' @ [CHR 0x22] @ [CHR 0x22] @ '','' @ [CHR 0x0A]
     @ ''      '' @ [CHR 0x22] @ ''from'' @ [CHR 0x22] @ '': 128,'' @ [CHR 0x0A]
     @ ''      '' @ [CHR 0x22] @ ''to'' @ [CHR 0x22] @ '': 136'' @ [CHR 0x0A]
     @ ''    },'' @ [CHR 0x0A]
     @ ''    '' @ [CHR 0x22] @ ''cidade'' @ [CHR 0x22] @ '': {'' @ [CHR 0x0A]
     @ ''      '' @ [CHR 0x22] @ ''value'' @ [CHR 0x22] @ '': '' @ [CHR 0x22] @ [CHR 0x22] @ '','' @ [CHR 0x0A]
     @ ''      '' @ [CHR 0x22] @ ''from'' @ [CHR 0x22] @ '': 136,'' @ [CHR 0x0A]
     @ ''      '' @ [CHR 0x22] @ ''to'' @ [CHR 0x22] @ '': 151'' @ [CHR 0x0A]
     @ ''    },'' @ [CHR 0x0A]
     @ ''    '' @ [CHR 0x22] @ ''estado'' @ [CHR 0x22] @ '': {'' @ [CHR 0x0A]
     @ ''      '' @ [CHR 0x22] @ ''value'' @ [CHR 0x22] @ '': '' @ [CHR 0x22] @ [CHR 0x22] @ '','' @ [CHR 0x0A]
     @ ''      '' @ [CHR 0x22] @ ''from'' @ [CHR 0x22] @ '': 151,'' @ [CHR 0x0A]
     @ ''      '' @ [CHR 0x22] @ ''to'' @ [CHR 0x22] @ '': 154'' @ [CHR 0x0A]
     @ ''    }'' @ [CHR 0x0A]
     @ ''  }'' @ [CHR 0x0A]
     @ '']''],
            console := [(Stdout, [Green ''Arquivo JSON exportado para: out.json''])]\<rparr>"
  using exportToJsonFile_entries
          [of "''out.json''" init_state None sample_document "full sample_document"]
        exportToJsonFile_entries
          [of "''out.json''" init_state None sample_document "[p_line, q_line]"]
        export_sample_text
  by (auto simp: sample_document_def sample_lines acme_line_discriminator init_state_def)

section \<open>Segment types without an offset table\<close>

text \<open>
  Claim C3, as amended. Field extraction is \<open>parseCnabQSegmentLine\<close>: it takes the line
  and no segment type, and it has no failing branch. For a line of any segment type it
  returns the six fields of the Q table with their ranges. A line that does not carry
  the discriminator Q is left out by the export, which then behaves as if the line were
  not there: no error is reported for it.
\<close>

theorem parseCnabQSegmentLine_any_segment:
  "(\<exists>nome endereco bairro cep cidade estado.
      parseCnabQSegmentLine line =
        Obj [(''nome'', Obj [(''value'', Str nome), (''from'', Num 33), (''to'', Num 73)]),
             (''endereco'', Obj [(''value'', Str endereco), (''from'', Num 73), (''to'', Num 113)]),
             (''bairro'', Obj [(''value'', Str bairro), (''from'', Num 113), (''to'', Num 128)]),
             (''cep'', Obj [(''value'', Str cep), (''from'', Num 128), (''to'', Num 136)]),
             (''cidade'', Obj [(''value'', Str cidade), (''from'', Num 136), (''to'', Num 151)]),
             (''estado'', Obj [(''value'', Str estado), (''from'', Num 151), (''to'', Num 154)])])
   \<and> (\<not> (13 < length line \<and> line ! 13 = CHR ''Q'') \<longrightarrow>
        exportToJsonFile (pre @ line # post) jsonPath s = exportToJsonFile (pre @ post) jsonPath s)"
proof -
  have skip: "exportToJsonFile (pre @ line # post) jsonPath s = exportToJsonFile (pre @ post) jsonPath s"
    if "\<not> (13 < length line \<and> line ! 13 = CHR ''Q'')"
  proof -
    have "filter (\<lambda>line. 13 < length line \<and> line ! 13 = CHR ''Q'') (pre @ line # post)
            = filter (\<lambda>line. 13 < length line \<and> line ! 13 = CHR ''Q'') (pre @ post)"
      using that by auto
    then show ?thesis unfolding exportToJsonFile_def q_filter_eq by simp
  qed
  have "\<exists>nome endereco bairro cep cidade estado.
      parseCnabQSegmentLine line =
        Obj [(''nome'', Obj [(''value'', Str nome), (''from'', Num 33), (''to'', Num 73)]),
             (''endereco'', Obj [(''value'', Str endereco), (''from'', Num 73), (''to'', Num 113)]),
             (''bairro'', Obj [(''value'', Str bairro), (''from'', Num 113), (''to'', Num 128)]),
             (''cep'', Obj [(''value'', Str cep), (''from'', Num 128), (''to'', Num 136)]),
             (''cidade'', Obj [(''value'', Str cidade), (''from'', Num 136), (''to'', Num 151)]),
             (''estado'', Obj [(''value'', Str estado), (''from'', Num 151), (''to'', Num 154)])]"
    by (simp add: parseCnabQSegmentLine_def CNAB_POSITIONS_def)
  with skip show ?thesis by blast
qed

theorem parseCnabQSegmentLine_any_segment_witness:
  "\<not> (13 < length p_line \<and> p_line ! 13 = CHR ''Q'')
   \<and> exportToJsonFile [q_line, p_line, acme_line] ''out.json'' init_state
       = exportToJsonFile [q_line, acme_line] ''out.json'' init_state"
  using parseCnabQSegmentLine_any_segment [of p_line "[q_line]" "[acme_line]" "''out.json''" init_state]
  by (simp add: sample_lines)

text \<open>
  The claim as stated fails: for a line with the discriminator P, for which no offset
  table is defined, the extraction returns a field set, here six fields with empty values
  since the line ends before index 33.
\<close>

theorem parseCnabQSegmentLine_P_line_counterexample:
  "index_str p_line (SEGMENT_INDEX CNAB_POSITIONS) = Some ''P''
   \<and> parseCnabQSegmentLine p_line =
       Obj [(''nome'', Obj [(''value'', Str []), (''from'', Num 33), (''to'', Num 73)]),
            (''endereco'', Obj [(''value'', Str []), (''from'', Num 73), (''to'', Num 113)]),
            (''bairro'', Obj [(''value'', Str []), (''from'', Num 113), (''to'', Num 128)]),
            (''cep'', Obj [(''value'', Str []), (''from'', Num 128), (''to'', Num 136)]),
            (''cidade'', Obj [(''value'', Str []), (''from'', Num 136), (''to'', Num 151)]),
            (''estado'', Obj [(''value'', Str []), (''from'', Num 151), (''to'', Num 154)])]"
  by (simp add: parseCnabQSegmentLine_def CNAB_POSITIONS_def js_slice_nonneg trim_def
        index_str_def p_line_def)

end
